theory Spec2Isabelle
  imports Main "HOL-Library.Word"
begin

section \<open>Values shared by the controller and the turn processor\<close>

text \<open>
  JavaScript values that cross the boundaries modelled here: what is written to the
  bootstrap stream, what a collaborator throws, the structured part of a message.
\<close>

datatype json =
    JNull
  | JBool bool
  | JNum int
  | JStr string
  | JArr "json list"
  | JObj "(string \<times> json) list"

text \<open>
  A thrown value. \<open>instanceof\<close> is decided by the class of an error object; anything
  else that is thrown (a string, a plain object) is no instance of \<open>Error\<close>.
\<close>

datatype error_class = RateLimitExceededError | SecurityError | PlainError

datatype thrown =
    ErrorObject error_class string
  | NonError json

fun instanceof_Error :: "thrown \<Rightarrow> bool" where
  "instanceof_Error (ErrorObject c m) = True"
| "instanceof_Error (NonError v) = False"

fun instanceof_RateLimitExceededError :: "thrown \<Rightarrow> bool" where
  "instanceof_RateLimitExceededError (ErrorObject c m) = (c = RateLimitExceededError)"
| "instanceof_RateLimitExceededError (NonError v) = False"

fun instanceof_SecurityError :: "thrown \<Rightarrow> bool" where
  "instanceof_SecurityError (ErrorObject c m) = (c = SecurityError)"
| "instanceof_SecurityError (NonError v) = False"

text \<open>
  The platform built-ins the controller calls, \<open>JSON.stringify\<close> (plain, and with the
  indentation argument of line 42) and \<open>TextEncoder.encode\<close>, are parameters: they belong
  to the runtime, not to the repository.
\<close>

record platform =
  JSON_stringify :: "json \<Rightarrow> string"
  JSON_stringify_indented :: "json \<Rightarrow> string"
  TextEncoder_encode :: "string \<Rightarrow> 8 word list"

section \<open>The bootstrap stream (controller.ts, lines 49-59)\<close>

text \<open>
  The controller object handed to \<open>transform\<close>: the chunks enqueued on the readable side
  and whether the stream has been terminated.
\<close>

record TransformStreamDefaultController =
  enqueued :: "8 word list list"
  terminated :: bool

definition enqueue ::
  "8 word list \<Rightarrow> TransformStreamDefaultController \<Rightarrow> TransformStreamDefaultController" where
  "enqueue bytes c = c\<lparr>enqueued := enqueued c @ [bytes]\<rparr>"

definition terminate :: "TransformStreamDefaultController \<Rightarrow> TransformStreamDefaultController" where
  "terminate c = c\<lparr>terminated := True\<rparr>"

definition newline :: string where
  "newline = [CHR 0x0A]"

definition transform ::
  "platform \<Rightarrow> json \<Rightarrow> TransformStreamDefaultController \<Rightarrow> TransformStreamDefaultController" where
  "transform pf chunk c =
     (if chunk = JStr ''terminate'' then terminate c
      else (let encoded = TextEncoder_encode pf (JSON_stringify pf chunk @ newline)
            in enqueue encoded c))"

text \<open>
  The writable side as the Streams standard has it: a write reaches \<open>transform\<close> only
  while the stream is neither terminated nor closed; afterwards it is rejected and
  leaves the stream as it is.
\<close>

record TransformStream =
  controller :: TransformStreamDefaultController
  writer_closed :: bool

definition new_TransformStream :: TransformStream where
  "new_TransformStream = \<lparr>controller = \<lparr>enqueued = [], terminated = False\<rparr>, writer_closed = False\<rparr>"

definition writer_write :: "platform \<Rightarrow> json \<Rightarrow> TransformStream \<Rightarrow> TransformStream" where
  "writer_write pf chunk s =
     (if terminated (controller s) \<or> writer_closed s then s
      else s\<lparr>controller := transform pf chunk (controller s)\<rparr>)"

definition writer_close :: "TransformStream \<Rightarrow> TransformStream" where
  "writer_close s = s\<lparr>writer_closed := True\<rparr>"

fun write_all :: "platform \<Rightarrow> json list \<Rightarrow> TransformStream \<Rightarrow> TransformStream" where
  "write_all pf [] s = s"
| "write_all pf (chunk # chunks) s = write_all pf chunks (writer_write pf chunk s)"

definition line_of :: "platform \<Rightarrow> json \<Rightarrow> 8 word list" where
  "line_of pf chunk = TextEncoder_encode pf (JSON_stringify pf chunk @ newline)"

section \<open>CodingAgentController.startCodeGeneration (controller.ts, lines 17-155)\<close>

record URL =
  protocol :: string
  hostname :: string
  port :: string
  host :: string
  origin :: string

record CodeGenArgs =
  query :: "string option"
  language :: "string option"
  frameworks :: "string list option"
  selectedTemplate :: "string option"
  agentMode :: "string option"

definition defaultCodeGenArgs :: CodeGenArgs where
  "defaultCodeGenArgs =
     \<lparr>query = Some [],
      language = Some ''typescript'',
      frameworks = Some [''react'', ''vite''],
      selectedTemplate = Some ''auto'',
      agentMode = Some ''deterministic''\<rparr>"

text \<open>\<open>a || b\<close> on an optional string: the empty string and \<open>undefined\<close> are falsy.\<close>

definition falsy :: "string option \<Rightarrow> bool" where
  "falsy v = (case v of None \<Rightarrow> True | Some s \<Rightarrow> s = [])"

definition string_or :: "string option \<Rightarrow> string option \<Rightarrow> string option" where
  "string_or a b = (if falsy a then b else a)"

text \<open>\<open>a || b\<close> on an optional array: every array is truthy.\<close>

definition array_or :: "'a list option \<Rightarrow> 'a list option \<Rightarrow> 'a list option" where
  "array_or a b = (case a of None \<Rightarrow> b | Some xs \<Rightarrow> Some xs)"

record MergedConfig =
  merged_name :: json
  merged_max_tokens :: json
  merged_temperature :: json
  merged_reasoning_effort :: json
  merged_fallbackModel :: json
  isUserOverride :: bool

record ModelConfig =
  name :: json
  max_tokens :: json
  temperature :: json
  reasoning_effort :: json
  fallbackModel :: json

record InferenceContext =
  userModelConfigs :: "(string \<times> ModelConfig) list"
  context_agentId :: string
  userId :: string
  enableRealtimeCodeFix :: bool

record TemplateDetails =
  template_name :: string
  template_files :: json

record TemplateForQuery =
  sandboxSessionId :: string
  templateDetails :: TemplateDetails
  selection :: json

record InitArgs =
  init_query :: string
  init_language :: "string option"
  init_frameworks :: "string list option"
  init_hostname :: string
  init_inferenceContext :: InferenceContext
  init_templateInfo :: "TemplateDetails \<times> json"
  init_sandboxSessionId :: string

text \<open>
  What the agent does with \<open>initialize\<close>: the blueprint fragments it reports through
  \<open>onBlueprintChunk\<close> while it initializes, and how the promise settles.
\<close>

datatype settlement = Resolves | Rejects thrown

record agent_stub =
  blueprint_chunks :: "string list"
  settles :: settlement

text \<open>
  The outcomes of the calls the handler makes to code outside the sources: \<open>Inl\<close> and
  \<open>Some\<close> carry what a call throws or rejects with.
\<close>

record services =
  getPreviewDomain :: string
  request_json :: "thrown + CodeGenArgs"
  enforceAppCreationRateLimit :: "thrown option"
  generateId :: string
  getUserModelConfigs :: "thrown + (string \<times> MergedConfig) list"
  getAgentStub :: "thrown + agent_stub"
  getTemplateForQuery :: "thrown + TemplateForQuery"

record request =
  request_url :: URL
  user_id :: string

text \<open>Every call with an effect outside the handler, in the order the handler makes them.\<close>

datatype effect =
    LoggerInfo string
  | LoggerError string
  | RequestJson
  | NewTransformStream
  | GetWriter
  | EnforceAppCreationRateLimit string
  | GenerateId
  | GetUserModelConfigs string
  | GetAgentStub string
  | GetTemplateForQuery string
  | WriterWrite json
  | WriterClose
  | AgentInitialize InitArgs "string option"

datatype response =
    ErrorResponse string nat
  | StreamResponse nat "(string \<times> string) list"
  | HandledError thrown string

record handled =
  response :: response
  handler_effects :: "effect list"
  background_effects :: "effect list"

text \<open>
  Modelled from the spec: \<open>createErrorResponse\<close> of BaseController, which is not among the
  sources. The spec gives the response as the status with \<open>{error: string}\<close>, the string
  being the message of the error it is given, or the string itself.
\<close>

fun createErrorResponse :: "thrown + string \<Rightarrow> nat \<Rightarrow> response" where
  "createErrorResponse (Inl (ErrorObject c message)) code = ErrorResponse message code"
| "createErrorResponse (Inl (NonError v)) code = ErrorResponse [] code"
| "createErrorResponse (Inr message) code = ErrorResponse message code"

text \<open>What \<open>JSON.stringify\<close> sees of a thrown value: an error object has no enumerable field.\<close>

fun thrown_json :: "thrown \<Rightarrow> json" where
  "thrown_json (ErrorObject c message) = JObj []"
| "thrown_json (NonError v) = v"

definition finished :: "response \<Rightarrow> effect list \<Rightarrow> handled" where
  "finished r effects = \<lparr>response = r, handler_effects = effects, background_effects = []\<rparr>"

text \<open>Lines 151-154: the outer \<open>catch\<close>; \<open>handleError\<close> is not among the sources.\<close>

definition outer_catch :: "thrown \<Rightarrow> effect list \<Rightarrow> handled" where
  "outer_catch err effects =
     finished (HandledError err ''start code generation'')
       (effects @ [LoggerError ''Error starting code generation''])"

text \<open>Lines 81-93: only the entries marked as user overrides are kept.\<close>

definition user_overrides :: "(string \<times> MergedConfig) list \<Rightarrow> (string \<times> ModelConfig) list" where
  "user_overrides userConfigsRecord =
     map (\<lambda>(actionKey, mergedConfig).
            (actionKey,
             \<lparr>name = merged_name mergedConfig,
              max_tokens = merged_max_tokens mergedConfig,
              temperature = merged_temperature mergedConfig,
              reasoning_effort = merged_reasoning_effort mergedConfig,
              fallbackModel = merged_fallbackModel mergedConfig\<rparr>))
         (filter (\<lambda>(actionKey, mergedConfig). isUserOverride mergedConfig) userConfigsRecord)"

definition stream_headers :: "(string \<times> string) list" where
  "stream_headers =
     [(''Content-Type'', ''text/event-stream; charset=utf-8''),
      (''Cache-Control'', ''no-cache, no-store, must-revalidate, no-transform''),
      (''Pragma'', ''no-cache''),
      (''Connection'', ''keep-alive'')]"

text \<open>
  Lines 134-138: \<open>then\<close> is given a fulfilment handler only, so the sentinel is written
  and the writer closed when the promise resolves; a rejection runs no handler.
\<close>

fun on_settled :: "string \<Rightarrow> settlement \<Rightarrow> effect list" where
  "on_settled agentId Resolves =
     [WriterWrite (JStr ''terminate''), WriterClose,
      LoggerInfo (''Agent '' @ agentId @ '' terminated successfully'')]"
| "on_settled agentId (Rejects err) = []"

text \<open>Lines 73-150: what follows a passed quota check.\<close>

definition after_quota ::
  "services \<Rightarrow> request \<Rightarrow> CodeGenArgs \<Rightarrow> string \<Rightarrow> string \<Rightarrow> effect list \<Rightarrow> handled" where
  "after_quota sv req body query_text host_name effects =
     (let url = request_url req;
          agentId = generateId sv;
          e1 = effects @ [GenerateId, GetUserModelConfigs (user_id req), GetAgentStub agentId]
      in case getUserModelConfigs sv of
           Inl err \<Rightarrow> outer_catch err e1
         | Inr userConfigsRecord \<Rightarrow>
        (case getAgentStub sv of
           Inl err \<Rightarrow> outer_catch err e1
         | Inr agentInstance \<Rightarrow>
        (let inferenceContext =
               \<lparr>userModelConfigs = user_overrides userConfigsRecord,
                context_agentId = agentId,
                userId = user_id req,
                enableRealtimeCodeFix = True\<rparr>;
             e2 = e1 @ [LoggerInfo (''Initialized inference context for user '' @ user_id req),
                        GetTemplateForQuery query_text]
         in case getTemplateForQuery sv of
              Inl err \<Rightarrow> outer_catch err e2
            | Inr template \<Rightarrow>
           (let websocketUrl =
                  (if protocol url = ''https:'' then ''wss:'' else ''ws:'') @ ''//'' @ host url @
                  ''/api/agent/'' @ agentId @ ''/ws'';
                httpStatusUrl = origin url @ ''/api/agent/'' @ agentId;
                started =
                  JObj [(''message'', JStr ''Code generation started''),
                        (''agentId'', JStr agentId),
                        (''websocketUrl'', JStr websocketUrl),
                        (''httpStatusUrl'', JStr httpStatusUrl),
                        (''template'',
                           JObj [(''name'', JStr (template_name (templateDetails template))),
                                 (''files'', template_files (templateDetails template))])];
                init =
                  \<lparr>init_query = query_text,
                   init_language = string_or (language body) (language defaultCodeGenArgs),
                   init_frameworks = array_or (frameworks body) (frameworks defaultCodeGenArgs),
                   init_hostname = host_name,
                   init_inferenceContext = inferenceContext,
                   init_templateInfo = (templateDetails template, selection template),
                   init_sandboxSessionId = sandboxSessionId template\<rparr>;
                e3 = e2 @
                  [WriterWrite started,
                   AgentInitialize init (string_or (agentMode body) (agentMode defaultCodeGenArgs)),
                   LoggerInfo (''Agent '' @ agentId @ '' init launched successfully'')]
            in \<lparr>response = StreamResponse 200 stream_headers,
                handler_effects = e3,
                background_effects =
                  map (\<lambda>chunk. WriterWrite (JObj [(''chunk'', JStr chunk)]))
                      (blueprint_chunks agentInstance) @
                  on_settled agentId (settles agentInstance)\<rparr>))))"

definition startCodeGeneration :: "platform \<Rightarrow> services \<Rightarrow> request \<Rightarrow> handled" where
  "startCodeGeneration pf sv req =
     (let e0 = [LoggerInfo ''Starting code generation process''];
          url = request_url req;
          host_name = (if hostname url = ''localhost'' then ''localhost:'' @ port url
                       else getPreviewDomain sv);
          e1 = e0 @ [RequestJson]
      in case request_json sv of
           Inl err \<Rightarrow>
             finished (createErrorResponse
                (Inr (''Invalid JSON in request body: '' @ JSON_stringify_indented pf (thrown_json err))) 400) e1
         | Inr body \<Rightarrow>
             (if falsy (query body)
              then finished (createErrorResponse
                     (Inr (''Missing '' @ [CHR 0x22] @ ''query'' @ [CHR 0x22] @ '' field in request body'')) 400) e1
              else (let e2 = e1 @ [NewTransformStream, GetWriter, EnforceAppCreationRateLimit (user_id req)]
                    in case enforceAppCreationRateLimit sv of
                         Some err \<Rightarrow>
                           (if instanceof_Error err
                            then finished (createErrorResponse (Inl err) 429) e2
                            else finished
                                   (createErrorResponse (Inr (JSON_stringify pf (thrown_json err))) 429)
                                   (e2 @ [LoggerError ''Unknown error in enforceAppCreationRateLimit'']))
                       | None \<Rightarrow> after_quota sv req body (case query body of None \<Rightarrow> [] | Some q \<Rightarrow> q) host_name e2)))"

section \<open>Conversation messages\<close>

datatype message_role = System | User | Assistant | Tool

text \<open>
  The content of a message is a string, a structured payload or absent; only the first
  answers \<open>typeof content === 'string'\<close>.
\<close>

datatype message_content = Text string | Parts "json list" | NoContent

record ConversationMessage =
  role :: message_role
  content :: message_content
  conversationId :: "string option"

text \<open>
  Modelled from the spec: \<open>createUserMessage\<close> and \<open>createAssistantMessage\<close> of
  inferutils/common, which is not among the sources. Each builds a message of its role
  around the given text; the correlation id is added by the caller's object spread.
\<close>

definition createUserMessage :: "string \<Rightarrow> ConversationMessage" where
  "createUserMessage s = \<lparr>role = User, content = Text s, conversationId = None\<rparr>"

definition createAssistantMessage :: "string \<Rightarrow> ConversationMessage" where
  "createAssistantMessage s = \<lparr>role = Assistant, content = Text s, conversationId = None\<rparr>"

text \<open>\<open>s.startsWith(t)\<close> and \<open>s.includes(t)\<close> on strings.\<close>

fun starts_with :: "string \<Rightarrow> string \<Rightarrow> bool" where
  "starts_with s [] = True"
| "starts_with [] (c # t) = False"
| "starts_with (a # s) (c # t) = (a = c \<and> starts_with s t)"

fun string_includes :: "string \<Rightarrow> string \<Rightarrow> bool" where
  "string_includes [] t = (t = [])"
| "string_includes (a # s) t = (starts_with (a # s) t \<or> string_includes s t)"

text \<open>The filter predicate of line 166, before its negation.\<close>

definition is_internal_memo :: "ConversationMessage \<Rightarrow> bool" where
  "is_internal_memo message =
     (role message = Assistant \<and>
      (case content message of Text s \<Rightarrow> string_includes s ''Internal Memo'' | _ \<Rightarrow> False))"

section \<open>The state of one turn\<close>

type_synonym tool_args = "(string \<times> json) list"

datatype tool_status = Start | Success | Failure

record tool_event =
  tool_name :: string
  status :: tool_status
  args :: "tool_args option"

text \<open>One invocation of the caller's \<open>conversationResponseCallback\<close>.\<close>

record callback_call =
  cb_message :: string
  cb_conversationId :: string
  isStreaming :: bool
  tool :: "tool_event option"

datatype log_entry = LogInfo string | LogError string | ConsoleLog string

text \<open>
  What a turn can read and write. Array objects live in a store addressed by position,
  so that two references to one array are one address; \<open>ids_issued\<close> counts the calls
  of \<open>IdGenerator.generateConversationId\<close>; the two \<open>extracted\<close> fields are the local
  variables of \<open>execute\<close> that its closures assign.
\<close>

record turn =
  arrays :: "ConversationMessage list list"
  ids_issued :: nat
  extractedUserResponse :: string
  extractedEnhancedRequest :: string
  callback_calls :: "callback_call list"
  logged :: "log_entry list"

definition new_array :: "ConversationMessage list \<Rightarrow> turn \<Rightarrow> nat \<times> turn" where
  "new_array xs t = (length (arrays t), t\<lparr>arrays := arrays t @ [xs]\<rparr>)"

definition read_array :: "turn \<Rightarrow> nat \<Rightarrow> ConversationMessage list" where
  "read_array t a = arrays t ! a"

definition array_push :: "nat \<Rightarrow> ConversationMessage list \<Rightarrow> turn \<Rightarrow> turn" where
  "array_push a xs t = t\<lparr>arrays := (arrays t)[a := arrays t ! a @ xs]\<rparr>"

definition logger_info :: "string \<Rightarrow> turn \<Rightarrow> turn" where
  "logger_info msg t = t\<lparr>logged := logged t @ [LogInfo msg]\<rparr>"

definition logger_error :: "string \<Rightarrow> turn \<Rightarrow> turn" where
  "logger_error msg t = t\<lparr>logged := logged t @ [LogError msg]\<rparr>"

definition console_log :: "string \<Rightarrow> turn \<Rightarrow> turn" where
  "console_log msg t = t\<lparr>logged := logged t @ [ConsoleLog msg]\<rparr>"

text \<open>
  \<open>IdGenerator.generateConversationId\<close> is not among the sources: the ids it yields are
  the parameter \<open>ids\<close>, the n-th call returning \<open>ids n\<close>.
\<close>

definition generateConversationId :: "(nat \<Rightarrow> string) \<Rightarrow> turn \<Rightarrow> string \<times> turn" where
  "generateConversationId ids t = (ids (ids_issued t), t\<lparr>ids_issued := Suc (ids_issued t)\<rparr>)"

definition conversationResponseCallback ::
  "string \<Rightarrow> string \<Rightarrow> bool \<Rightarrow> tool_event option \<Rightarrow> turn \<Rightarrow> turn" where
  "conversationResponseCallback message cid streaming ev t =
     t\<lparr>callback_calls := callback_calls t @
          [\<lparr>cb_message = message, cb_conversationId = cid, isStreaming = streaming, tool = ev\<rparr>]\<rparr>"

section \<open>Tool definitions (part\_000, lines 55-86)\<close>

record property_schema =
  property_type :: string
  minLength :: "nat option"
  property_description :: string

record parameters_schema =
  schema_type :: string
  additionalProperties :: bool
  properties :: "(string \<times> property_schema) list"
  required :: "string list"

text \<open>
  A tool's implementation returns a JavaScript value, \<open>TResult\<close> in the source; the
  queue-an-edit tool returns the object \<open>{content: "..."}\<close> (line 83).
\<close>

record 'a ToolDefinition =
  tool_type :: string
  function_name :: string
  function_description :: string
  function_parameters :: parameters_schema
  implementation :: "'a \<Rightarrow> turn \<Rightarrow> json \<times> turn"
  onStart :: "('a \<Rightarrow> turn \<Rightarrow> turn) option"
  onComplete :: "('a \<Rightarrow> json \<Rightarrow> turn \<Rightarrow> turn) option"

record EditAppArgs =
  modificationRequest :: string

definition buildEditAppTool :: "(string \<Rightarrow> turn \<Rightarrow> turn) \<Rightarrow> EditAppArgs ToolDefinition" where
  "buildEditAppTool stateMutator =
     \<lparr>tool_type = ''function'',
      function_name = ''queue_request'',
      function_description =
        ''Queue up modification requests or changes, to be implemented in the next development phase'',
      function_parameters =
        \<lparr>schema_type = ''object'',
         additionalProperties = False,
         properties =
           [(''modificationRequest'',
             \<lparr>property_type = ''string'',
              minLength = Some 8,
              property_description =
                ''The changes needed to be made to the app. Please don'' @ [CHR 0x27] @
                ''t supply any code level or implementation details. Provide detailed requirements and description of the changes you want to make.''\<rparr>)],
         required = [''modificationRequest'']\<rparr>,
      implementation = (\<lambda>args t.
        let t1 = console_log ''Queueing app edit request'' t;
            t2 = stateMutator (modificationRequest args) t1
        in (JObj [(''content'',
                   JStr ''Modification request queued successfully, will be implemented in the next phase of development.'')],
            t2)),
      onStart = None,
      onComplete = None\<rparr>"

text \<open>
  The two imported tools are not among the sources. Their implementations are defined
  outside \<open>execute\<close> and hold no reference to its local variables or arrays, so each is
  given by its name and the value it returns.
\<close>

record imported_tool =
  imported_name :: string
  imported_run :: "tool_args \<Rightarrow> json"

definition imported_definition :: "imported_tool \<Rightarrow> tool_args ToolDefinition" where
  "imported_definition it =
     \<lparr>tool_type = ''function'',
      function_name = imported_name it,
      function_description = [],
      function_parameters =
        \<lparr>schema_type = ''object'', additionalProperties = False, properties = [], required = []\<rparr>,
      implementation = (\<lambda>a t. (imported_run it a, t)),
      onStart = None,
      onComplete = None\<rparr>"

section \<open>The inference engine as seen by the turn processor\<close>

record inference_args =
  args_messages :: "ConversationMessage list"
  agentActionName :: string
  chunk_size :: nat

datatype inference_step =
    StreamChunk string
  | CallWebSearch tool_args
  | CallWeather tool_args
  | CallQueueRequest EditAppArgs

record inference_result =
  result_string :: string
  newMessages :: "ConversationMessage list option"

record inference_run =
  steps :: "inference_step list"
  outcome :: "thrown + inference_result"

record toolset =
  webSearch :: "tool_args ToolDefinition"
  weather :: "tool_args ToolDefinition"
  queueRequest :: "EditAppArgs ToolDefinition"

definition invoke :: "'a ToolDefinition \<Rightarrow> 'a \<Rightarrow> turn \<Rightarrow> turn" where
  "invoke td a t =
     (let t1 = (case onStart td of None \<Rightarrow> t | Some h \<Rightarrow> h a t);
          (res, t2) = implementation td a t1
      in (case onComplete td of None \<Rightarrow> t2 | Some h \<Rightarrow> h a res t2))"

fun perform_step :: "toolset \<Rightarrow> (string \<Rightarrow> turn \<Rightarrow> turn) \<Rightarrow> inference_step \<Rightarrow> turn \<Rightarrow> turn" where
  "perform_step tools onChunk (StreamChunk chunk) t = onChunk chunk t"
| "perform_step tools onChunk (CallWebSearch a) t = invoke (webSearch tools) a t"
| "perform_step tools onChunk (CallWeather a) t = invoke (weather tools) a t"
| "perform_step tools onChunk (CallQueueRequest a) t = invoke (queueRequest tools) a t"

text \<open>
  Modelled from the spec: \<open>executeInference\<close> of inferutils/infer, which is not among the
  sources. The spec gives its contract: it receives the messages, the tool set and the
  stream callback, reports text fragments through \<open>onChunk\<close>, invokes tools with their
  lifecycle hooks around the implementation, and then either returns \<open>{string,
  newMessages}\<close> or throws. What the engine does on a given call is the parameter \<open>run\<close>:
  the callbacks it makes, in order, and how the call ends.
\<close>

definition executeInference ::
  "inference_run \<Rightarrow> toolset \<Rightarrow> (string \<Rightarrow> turn \<Rightarrow> turn) \<Rightarrow> turn
     \<Rightarrow> (thrown + inference_result) \<times> turn" where
  "executeInference run tools onChunk t =
     (outcome run, fold (perform_step tools onChunk) (steps run) t)"

section \<open>UserConversationProcessor.execute (part\_000, lines 88-194)\<close>

definition CHUNK_SIZE :: nat where
  "CHUNK_SIZE = 64"

definition FALLBACK_USER_RESPONSE :: string where
  "FALLBACK_USER_RESPONSE =
     ''I understand you'' @ [CHR 0x27] @
     ''d like to make some changes to your project. Let me make sure this is incorporated in the next phase of development.''"

text \<open>\<open>pastMessages\<close> and \<open>messages\<close> are references to array objects: addresses in the store.\<close>

record UserConversationInputs =
  userMessage :: string
  pastMessages :: nat

record ConversationalResponseType =
  enhancedUserRequest :: string
  userResponse :: string

record UserConversationOutputs =
  conversationResponse :: ConversationalResponseType
  messages :: nat

text \<open>
  What \<open>execute\<close> obtains from code outside the sources: the ids of the id generator,
  the system prompt messages returned by \<open>getSystemPromptWithProjectContext\<close>, the
  behaviour of the inference engine on the request it is given, and the two imported tools.
\<close>

record collaborators =
  conversation_ids :: "nat \<Rightarrow> string"
  systemPrompts :: "ConversationMessage list"
  inference :: "inference_args \<Rightarrow> inference_run"
  toolWebSearchDefinition :: imported_tool
  toolWeatherDefinition :: imported_tool

text \<open>Lines 108-122. \<open>as_record\<close> is the cast \<open>args as Record<string, unknown>\<close>.\<close>

definition attachLifecycle :: "string \<Rightarrow> ('a \<Rightarrow> tool_args) \<Rightarrow> 'a ToolDefinition \<Rightarrow> 'a ToolDefinition" where
  "attachLifecycle aiConversationId as_record td =
     td\<lparr>onStart := Some (\<lambda>a. conversationResponseCallback [] aiConversationId False
            (Some \<lparr>tool_name = function_name td, status = Start, args = Some (as_record a)\<rparr>)),
        onComplete := Some (\<lambda>a result. conversationResponseCallback [] aiConversationId False
            (Some \<lparr>tool_name = function_name td, status = Success, args = Some (as_record a)\<rparr>))\<rparr>"

definition edit_args_record :: "EditAppArgs \<Rightarrow> tool_args" where
  "edit_args_record a = [(''modificationRequest'', JStr (modificationRequest a))]"

text \<open>Lines 126-129: the mutator handed to \<open>buildEditAppTool\<close>.\<close>

definition storeEnhancedRequest :: "string \<Rightarrow> turn \<Rightarrow> turn" where
  "storeEnhancedRequest request t =
     (logger_info ''Received app edit request'' t)\<lparr>extractedEnhancedRequest := request\<rparr>"

definition turn_tools :: "collaborators \<Rightarrow> string \<Rightarrow> toolset" where
  "turn_tools ext aiConversationId =
     \<lparr>webSearch = attachLifecycle aiConversationId id (imported_definition (toolWebSearchDefinition ext)),
      weather = attachLifecycle aiConversationId id (imported_definition (toolWeatherDefinition ext)),
      queueRequest = attachLifecycle aiConversationId edit_args_record
                       (buildEditAppTool storeEnhancedRequest)\<rparr>"

text \<open>Lines 145-149: the stream callback.\<close>

definition onChunk :: "string \<Rightarrow> string \<Rightarrow> turn \<Rightarrow> turn" where
  "onChunk aiConversationId chunk t =
     (let t1 = logger_info ''Processing user message chunk'' t;
          t2 = conversationResponseCallback chunk aiConversationId True None t1
      in t2\<lparr>extractedUserResponse := extractedUserResponse t2 @ chunk\<rparr>)"

text \<open>Line 167: each kept message is copied with an id of its own, in order.\<close>

fun tag_messages ::
  "(nat \<Rightarrow> string) \<Rightarrow> ConversationMessage list \<Rightarrow> turn \<Rightarrow> ConversationMessage list \<times> turn" where
  "tag_messages ids [] t = ([], t)"
| "tag_messages ids (message # rest) t =
     (let (i, t1) = generateConversationId ids t;
          (tagged, t2) = tag_messages ids rest t1
      in (message\<lparr>conversationId := Some i\<rparr> # tagged, t2))"

text \<open>Lines 155-174: what follows a returning inference call.\<close>

definition on_success ::
  "collaborators \<Rightarrow> nat \<Rightarrow> inference_result \<Rightarrow> turn \<Rightarrow> (thrown + UserConversationOutputs) \<times> turn" where
  "on_success ext messages_ref result t0 =
     (let t1 = logger_info ''Successfully processed user message'' t0;
          response = \<lparr>enhancedUserRequest = extractedEnhancedRequest t1,
                      userResponse = extractedUserResponse t1\<rparr>;
          kept = filter (\<lambda>message. \<not> is_internal_memo message)
                   (case newMessages result of None \<Rightarrow> [] | Some ms \<Rightarrow> ms);
          (tagged, t2) = tag_messages (conversation_ids ext) kept t1;
          t3 = array_push messages_ref tagged t2;
          (finalId, t4) = generateConversationId (conversation_ids ext) t3;
          t5 = array_push messages_ref
                 [(createAssistantMessage (result_string result))\<lparr>conversationId := Some finalId\<rparr>] t4;
          t6 = logger_info ''Current conversation history'' t5
      in (Inr \<lparr>conversationResponse = response, messages = messages_ref\<rparr>, t6))"

text \<open>Lines 96-174: the body of the \<open>try\<close>; \<open>Inl\<close> is what the inference call threw.\<close>

definition try_block ::
  "collaborators \<Rightarrow> UserConversationInputs \<Rightarrow> turn \<Rightarrow> (thrown + UserConversationOutputs) \<times> turn" where
  "try_block ext inputs t0 =
     (let past = read_array t0 (pastMessages inputs);
          (userId, t1) = generateConversationId (conversation_ids ext) t0;
          (messages_ref, t2) =
             new_array (past @ [(createUserMessage (userMessage inputs))\<lparr>conversationId := Some userId\<rparr>]) t1;
          t3 = t2\<lparr>extractedUserResponse := [], extractedEnhancedRequest := []\<rparr>;
          (aiConversationId, t4) = generateConversationId (conversation_ids ext) t3;
          t5 = logger_info ''Generated conversation ID'' t4;
          tools = turn_tools ext aiConversationId;
          t6 = logger_info ''Executing inference for user message'' t5;
          request = \<lparr>args_messages = systemPrompts ext @ read_array t6 messages_ref,
                     agentActionName = ''conversationalResponse'',
                     chunk_size = CHUNK_SIZE\<rparr>;
          (r, t7) = executeInference (inference ext request) tools (onChunk aiConversationId) t6
      in case r of
           Inl err \<Rightarrow> (Inl err, t7)
         | Inr result \<Rightarrow> on_success ext messages_ref result t7)"

text \<open>Lines 175-193: the \<open>catch\<close>.\<close>

definition catch_block ::
  "collaborators \<Rightarrow> UserConversationInputs \<Rightarrow> thrown \<Rightarrow> turn
     \<Rightarrow> (thrown + UserConversationOutputs) \<times> turn" where
  "catch_block ext inputs err t0 =
     (let t1 = logger_error ''Error processing user message:'' t0
      in if instanceof_RateLimitExceededError err \<or> instanceof_SecurityError err
         then (Inl err, t1)
         else (let past = read_array t1 (pastMessages inputs);
                   (userId, t2) = generateConversationId (conversation_ids ext) t1;
                   (replyId, t3) = generateConversationId (conversation_ids ext) t2;
                   (messages_ref, t4) =
                      new_array (past @
                        [(createUserMessage (userMessage inputs))\<lparr>conversationId := Some userId\<rparr>,
                         (createAssistantMessage FALLBACK_USER_RESPONSE)\<lparr>conversationId := Some replyId\<rparr>]) t3
               in (Inr \<lparr>conversationResponse =
                          \<lparr>enhancedUserRequest = ''User request: '' @ userMessage inputs,
                           userResponse = FALLBACK_USER_RESPONSE\<rparr>,
                        messages = messages_ref\<rparr>, t4)))"

definition execute ::
  "collaborators \<Rightarrow> UserConversationInputs \<Rightarrow> turn \<Rightarrow> (thrown + UserConversationOutputs) \<times> turn" where
  "execute ext inputs t0 =
     (let t1 = logger_info ''Processing user message'' t0
      in case try_block ext inputs t1 of
           (Inr outputs, t2) \<Rightarrow> (Inr outputs, t2)
         | (Inl err, t2) \<Rightarrow> catch_block ext inputs err t2)"

text \<open>
  The request \<open>execute\<close> hands to the inference engine when it starts from \<open>t0\<close>: the
  system prompts, the history and the user message under the first id of the turn.
\<close>

definition inference_request :: "collaborators \<Rightarrow> UserConversationInputs \<Rightarrow> turn \<Rightarrow> inference_args" where
  "inference_request ext inputs t0 =
     \<lparr>args_messages = systemPrompts ext @ read_array t0 (pastMessages inputs) @
        [\<lparr>role = User, content = Text (userMessage inputs),
          conversationId = Some (conversation_ids ext (ids_issued t0))\<rparr>],
      agentActionName = ''conversationalResponse'',
      chunk_size = 64\<rparr>"

text \<open>What the engine streamed and which edit it queued last, read off its run.\<close>

fun streamed_text :: "inference_step list \<Rightarrow> string" where
  "streamed_text [] = []"
| "streamed_text (StreamChunk chunk # rest) = chunk @ streamed_text rest"
| "streamed_text (other # rest) = streamed_text rest"

fun queued_request :: "string \<Rightarrow> inference_step list \<Rightarrow> string" where
  "queued_request current [] = current"
| "queued_request current (CallQueueRequest a # rest) = queued_request (modificationRequest a) rest"
| "queued_request current (other # rest) = queued_request current rest"

section \<open>UserConversationProcessor.processProjectUpdates (part\_000, lines 196-213)\<close>

datatype ProjectUpdateType =
    PHASE_IMPLEMENTING
  | PHASE_IMPLEMENTED
  | CODE_REVIEW
  | FILE_REGENERATING
  | FILE_REGENERATED
  | DEPLOYMENT_COMPLETED
  | COMMAND_EXECUTING

text \<open>
  The logger is an argument of \<open>processProjectUpdates\<close>, so what its methods do when
  called is part of the input: \<open>None\<close> when the call returns, \<open>Some\<close> of what it throws
  otherwise.
\<close>

record StructuredLogger =
  info_throws :: "thrown option"
  error_throws :: "thrown option"

text \<open>
  The string values of the \<open>WebSocketMessageResponses\<close> constants are not among the
  sources: \<open>wire\<close> gives the string of each update type, as the template literal prints it.
\<close>

definition preparedMessage :: "(ProjectUpdateType \<Rightarrow> string) \<Rightarrow> ProjectUpdateType \<Rightarrow> string" where
  "preparedMessage wire updateType =
     ''**<Internal Memo>**'' @ newline @ ''Project Updates: '' @ wire updateType @ newline @
     ''</Internal Memo>''"

text \<open>
  Lines 209-212: the \<open>catch\<close>. It calls \<open>logger.error\<close> before it returns the empty
  array, so what that call throws leaves the method.
\<close>

definition update_catch ::
  "StructuredLogger \<Rightarrow> thrown \<Rightarrow> turn \<Rightarrow> (thrown + ConversationMessage list) \<times> turn" where
  "update_catch logger err t =
     (case error_throws logger of
        Some thrown_by_logger \<Rightarrow> (Inl thrown_by_logger, t)
      | None \<Rightarrow> (Inr [], logger_error ''Error processing project update:'' t))"

text \<open>
  Lines 196-208. \<open>id_throws\<close> is what the call of the id generator throws, if it does;
  \<open>Inl\<close> in the result is an exception that leaves the method.
\<close>

definition processProjectUpdates ::
  "(nat \<Rightarrow> string) \<Rightarrow> thrown option \<Rightarrow> (ProjectUpdateType \<Rightarrow> string)
     \<Rightarrow> ProjectUpdateType \<Rightarrow> 'd \<Rightarrow> StructuredLogger \<Rightarrow> turn
     \<Rightarrow> (thrown + ConversationMessage list) \<times> turn" where
  "processProjectUpdates ids id_throws wire updateType data logger t0 =
     (case info_throws logger of
        Some err \<Rightarrow> update_catch logger err t0
      | None \<Rightarrow>
          (let t1 = logger_info ''Processing project update'' t0;
               prepared = preparedMessage wire updateType
           in case id_throws of
                Some err \<Rightarrow> update_catch logger err t1
              | None \<Rightarrow>
                  (let (i, t2) = generateConversationId ids t1
                   in (Inr [\<lparr>role = Assistant, content = Text prepared, conversationId = Some i\<rparr>],
                       t2))))"

section \<open>Observations used to state the properties of \<open>execute\<close>\<close>

text \<open>The state in which the engine is called: lines 98-136 of the \<open>try\<close>.\<close>

definition before_inference :: "collaborators \<Rightarrow> UserConversationInputs \<Rightarrow> turn \<Rightarrow> turn" where
  "before_inference ext inputs t0 =
     (let past = read_array t0 (pastMessages inputs);
          (userId, t1) = generateConversationId (conversation_ids ext) t0;
          (messages_ref, t2) =
             new_array (past @ [(createUserMessage (userMessage inputs))\<lparr>conversationId := Some userId\<rparr>]) t1;
          t3 = t2\<lparr>extractedUserResponse := [], extractedEnhancedRequest := []\<rparr>;
          (aiConversationId, t4) = generateConversationId (conversation_ids ext) t3;
          t5 = logger_info ''Generated conversation ID'' t4
      in logger_info ''Executing inference for user message'' t5)"

text \<open>The state in which the inference call ends: the engine's callbacks have run.\<close>

definition after_inference :: "collaborators \<Rightarrow> UserConversationInputs \<Rightarrow> turn \<Rightarrow> turn" where
  "after_inference ext inputs t0 =
     fold (perform_step (turn_tools ext (conversation_ids ext (Suc (ids_issued t0))))
             (onChunk (conversation_ids ext (Suc (ids_issued t0)))))
          (steps (inference ext (inference_request ext inputs t0)))
          (before_inference ext inputs t0)"

text \<open>The new messages that pass the filter of line 166.\<close>

definition kept_messages :: "inference_result \<Rightarrow> ConversationMessage list" where
  "kept_messages result =
     filter (\<lambda>message. \<not> is_internal_memo message)
       (case newMessages result of None \<Rightarrow> [] | Some ms \<Rightarrow> ms)"

text \<open>The messages \<open>ms\<close>, the k-th of them carrying the id of call \<open>n + k\<close> of the generator.\<close>

definition tagged_from :: "(nat \<Rightarrow> string) \<Rightarrow> nat \<Rightarrow> ConversationMessage list \<Rightarrow> ConversationMessage list" where
  "tagged_from ids n ms =
     map (\<lambda>(m, k). m\<lparr>conversationId := Some (ids k)\<rparr>) (zip ms [n ..< n + length ms])"

text \<open>
  What the caller holds after \<open>execute\<close> has returned: the response, and the contents of
  the array that \<open>messages\<close> refers to, read from the store as the call left it.
\<close>

definition returned_response ::
  "(thrown + UserConversationOutputs) \<times> turn \<Rightarrow> ConversationalResponseType option" where
  "returned_response r =
     (case fst r of Inl err \<Rightarrow> None | Inr outputs \<Rightarrow> Some (conversationResponse outputs))"

definition returned_messages ::
  "(thrown + UserConversationOutputs) \<times> turn \<Rightarrow> ConversationMessage list option" where
  "returned_messages r =
     (case fst r of Inl err \<Rightarrow> None | Inr outputs \<Rightarrow> Some (read_array (snd r) (messages outputs)))"

text \<open>A concrete runtime for evaluating the model on sample inputs.\<close>

definition sample_platform :: platform where
  "sample_platform =
     \<lparr>JSON_stringify = (\<lambda>j. case j of JStr s \<Rightarrow> [CHR 0x22] @ s @ [CHR 0x22] | _ \<Rightarrow> ''{}''),
      JSON_stringify_indented = (\<lambda>j. case j of JStr s \<Rightarrow> [CHR 0x22] @ s @ [CHR 0x22] | _ \<Rightarrow> ''{}''),
      TextEncoder_encode = map (\<lambda>c. of_nat (of_char c))\<rparr>"

definition sample_ids :: "nat \<Rightarrow> string" where
  "sample_ids n = ''id-'' @ replicate n (CHR ''i'')"

definition sample_memo :: ConversationMessage where
  "sample_memo = \<lparr>role = Assistant, content = Text ''<Internal Memo> phase done'', conversationId = None\<rparr>"

definition sample_trace :: ConversationMessage where
  "sample_trace = \<lparr>role = Tool, content = Text ''queued'', conversationId = None\<rparr>"

definition sample_steps :: "inference_step list" where
  "sample_steps =
     [StreamChunk ''Sure, '',
      CallQueueRequest \<lparr>modificationRequest = ''add a dark mode toggle''\<rparr>,
      StreamChunk ''adding it now.'']"

definition sample_result :: inference_result where
  "sample_result =
     \<lparr>result_string = ''Sure, adding it now.'', newMessages = Some [sample_memo, sample_trace]\<rparr>"

definition sample_collaborators :: "inference_run \<Rightarrow> collaborators" where
  "sample_collaborators run =
     \<lparr>conversation_ids = sample_ids,
      systemPrompts = [\<lparr>role = System, content = Text ''You are Orange'', conversationId = None\<rparr>],
      inference = (\<lambda>request. run),
      toolWebSearchDefinition = \<lparr>imported_name = ''web_search'', imported_run = (\<lambda>a. JObj [(''results'', JArr [])])\<rparr>,
      toolWeatherDefinition = \<lparr>imported_name = ''get_weather'', imported_run = (\<lambda>a. JObj [(''condition'', JStr ''sunny'')])\<rparr>\<rparr>"

definition sample_inputs :: UserConversationInputs where
  "sample_inputs = \<lparr>userMessage = ''add a dark mode toggle'', pastMessages = 0\<rparr>"

definition sample_turn :: turn where
  "sample_turn =
     \<lparr>arrays = [ [\<lparr>role = User, content = Text ''hello'', conversationId = Some ''h''\<rparr>] ],
      ids_issued = 0,
      extractedUserResponse = [],
      extractedEnhancedRequest = [],
      callback_calls = [],
      logged = []\<rparr>"

definition sample_run :: inference_run where
  "sample_run = \<lparr>steps = sample_steps, outcome = Inr sample_result\<rparr>"

definition failing_run :: "thrown \<Rightarrow> inference_run" where
  "failing_run err = \<lparr>steps = [StreamChunk ''Sure, ''], outcome = Inl err\<rparr>"

definition mismatched_run :: inference_run where
  "mismatched_run =
     \<lparr>steps = [StreamChunk ''Sure, ''],
      outcome = Inr \<lparr>result_string = ''Done.'', newMessages = None\<rparr>\<rparr>"

definition sample_wire :: "ProjectUpdateType \<Rightarrow> string" where
  "sample_wire updateType =
     (case updateType of
        PHASE_IMPLEMENTING \<Rightarrow> ''phase_implementing''
      | PHASE_IMPLEMENTED \<Rightarrow> ''phase_implemented''
      | CODE_REVIEW \<Rightarrow> ''code_review''
      | FILE_REGENERATING \<Rightarrow> ''file_regenerating''
      | FILE_REGENERATED \<Rightarrow> ''file_regenerated''
      | DEPLOYMENT_COMPLETED \<Rightarrow> ''deployment_completed''
      | COMMAND_EXECUTING \<Rightarrow> ''command_executing'')"

definition sample_request :: request where
  "sample_request =
     \<lparr>request_url =
        \<lparr>protocol = ''https:'', hostname = ''build.example.com'', port = [],
         host = ''build.example.com'', origin = ''https://build.example.com''\<rparr>,
      user_id = ''u1''\<rparr>"

definition sample_body :: CodeGenArgs where
  "sample_body =
     \<lparr>query = Some ''todo app'', language = None, frameworks = None,
      selectedTemplate = None, agentMode = None\<rparr>"

definition sample_services :: "thrown option \<Rightarrow> settlement \<Rightarrow> services" where
  "sample_services quota settle =
     \<lparr>getPreviewDomain = ''preview.example.com'',
      request_json = Inr sample_body,
      enforceAppCreationRateLimit = quota,
      generateId = ''agent-1'',
      getUserModelConfigs = Inr [],
      getAgentStub = Inr \<lparr>blueprint_chunks = [''bp''], settles = settle\<rparr>,
      getTemplateForQuery =
        Inr \<lparr>sandboxSessionId = ''sb'',
             templateDetails = \<lparr>template_name = ''vite-react'', template_files = JArr []\<rparr>,
             selection = JNull\<rparr>\<rparr>"

definition working_logger :: StructuredLogger where
  "working_logger = \<lparr>info_throws = None, error_throws = None\<rparr>"

definition broken_logger :: StructuredLogger where
  "broken_logger =
     \<lparr>info_throws = Some (ErrorObject PlainError ''log sink closed''),
      error_throws = Some (ErrorObject PlainError ''log sink closed'')\<rparr>"

section \<open>Properties of the bootstrap stream\<close>

lemma write_all_dead:
  "terminated (controller s) \<or> writer_closed s \<Longrightarrow> write_all pf chunks s = s"
  by (induction chunks arbitrary: s) (auto simp: writer_write_def)

lemma write_all_enqueued:
  "\<not> terminated (controller s) \<Longrightarrow> \<not> writer_closed s \<Longrightarrow>
   enqueued (controller (write_all pf chunks s)) =
     enqueued (controller s) @ map (line_of pf) (takeWhile (\<lambda>c. c \<noteq> JStr ''terminate'') chunks)"
proof (induction chunks arbitrary: s)
  case Nil
  then show ?case by simp
next
  case (Cons chunk chunks)
  show ?case
  proof (cases "chunk = JStr ''terminate''")
    case True
    have "terminated (controller (writer_write pf chunk s))"
      using Cons.prems True by (simp add: writer_write_def transform_def terminate_def)
    then have "write_all pf chunks (writer_write pf chunk s) = writer_write pf chunk s"
      by (simp add: write_all_dead)
    then show ?thesis
      using Cons.prems True by (simp add: writer_write_def transform_def terminate_def)
  next
    case False
    have live: "\<not> terminated (controller (writer_write pf chunk s))"
               "\<not> writer_closed (writer_write pf chunk s)"
      using Cons.prems False by (simp_all add: writer_write_def transform_def enqueue_def)
    have step: "enqueued (controller (writer_write pf chunk s)) =
                enqueued (controller s) @ [line_of pf chunk]"
      using Cons.prems False
      by (simp add: writer_write_def transform_def enqueue_def line_of_def)
    show ?thesis
      using Cons.IH [OF live] False by (simp add: step)
  qed
qed

text \<open>
  C8. One call of \<open>transform\<close>: a chunk other than the sentinel \<open>"terminate"\<close> adds exactly
  one entry to the readable queue, the encoded JSON serialization of the chunk followed
  by a newline, and does not terminate the stream; the sentinel terminates the stream
  and leaves the queue as it was, so the sentinel is never serialized or enqueued.
  Over any sequence of writes to a fresh stream, the queue holds the lines of the chunks
  written before the first sentinel and nothing else.
\<close>

theorem transform_serializes_or_terminates:
  "enqueued (transform pf chunk c) =
     (if chunk = JStr ''terminate'' then enqueued c
      else enqueued c @ [TextEncoder_encode pf (JSON_stringify pf chunk @ [CHR 0x0A])])
   \<and> terminated (transform pf chunk c) = (chunk = JStr ''terminate'' \<or> terminated c)
   \<and> enqueued (controller (write_all pf chunks new_TransformStream)) =
       map (\<lambda>x. TextEncoder_encode pf (JSON_stringify pf x @ [CHR 0x0A]))
           (takeWhile (\<lambda>x. x \<noteq> JStr ''terminate'') chunks)"
proof -
  have a: "enqueued (transform pf chunk c) =
     (if chunk = JStr ''terminate'' then enqueued c
      else enqueued c @ [TextEncoder_encode pf (JSON_stringify pf chunk @ [CHR 0x0A])])"
    by (simp add: transform_def terminate_def enqueue_def newline_def)
  have b: "terminated (transform pf chunk c) = (chunk = JStr ''terminate'' \<or> terminated c)"
    by (simp add: transform_def terminate_def enqueue_def)
  have "enqueued (controller (write_all pf chunks new_TransformStream)) =
        enqueued (controller new_TransformStream) @
          map (line_of pf) (takeWhile (\<lambda>x. x \<noteq> JStr ''terminate'') chunks)"
    by (rule write_all_enqueued) (simp_all add: new_TransformStream_def)
  then have c: "enqueued (controller (write_all pf chunks new_TransformStream)) =
       map (\<lambda>x. TextEncoder_encode pf (JSON_stringify pf x @ [CHR 0x0A]))
           (takeWhile (\<lambda>x. x \<noteq> JStr ''terminate'') chunks)"
    by (simp add: new_TransformStream_def line_of_def newline_def)
  from a b c show ?thesis by blast
qed

theorem transform_serializes_or_terminates_witness:
  "enqueued (transform sample_platform (JStr ''hi'') \<lparr>enqueued = [], terminated = False\<rparr>) =
     [TextEncoder_encode sample_platform (JSON_stringify sample_platform (JStr ''hi'') @ [CHR 0x0A])]
   \<and> \<not> terminated (transform sample_platform (JStr ''hi'') \<lparr>enqueued = [], terminated = False\<rparr>)
   \<and> enqueued (controller (write_all sample_platform
         [JStr ''hi'', JStr ''terminate'', JStr ''late''] new_TransformStream)) =
       [TextEncoder_encode sample_platform (JSON_stringify sample_platform (JStr ''hi'') @ [CHR 0x0A])]"
  using transform_serializes_or_terminates
    [of sample_platform "JStr ''hi''" "\<lparr>enqueued = [], terminated = False\<rparr>"
        "[JStr ''hi'', JStr ''terminate'', JStr ''late'']"]
  by simp

section \<open>Properties of the turn processor\<close>


lemma perform_step_chunk:
  "perform_step (turn_tools ext a) (onChunk a) (StreamChunk c) t =
     t\<lparr>extractedUserResponse := extractedUserResponse t @ c,
       callback_calls := callback_calls t @
          [\<lparr>cb_message = c, cb_conversationId = a, isStreaming = True, tool = None\<rparr>],
       logged := logged t @ [LogInfo ''Processing user message chunk'']\<rparr>"
  by (simp add: onChunk_def logger_info_def conversationResponseCallback_def Let_def)

lemma step_arrays:
  "arrays (perform_step (turn_tools ext a) (onChunk a) st t) = arrays t"
  by (cases st)
     (simp_all add: onChunk_def logger_info_def conversationResponseCallback_def Let_def
        turn_tools_def attachLifecycle_def invoke_def imported_definition_def
        buildEditAppTool_def storeEnhancedRequest_def console_log_def)

lemma step_ids:
  "ids_issued (perform_step (turn_tools ext a) (onChunk a) st t) = ids_issued t"
  by (cases st)
     (simp_all add: onChunk_def logger_info_def conversationResponseCallback_def Let_def
        turn_tools_def attachLifecycle_def invoke_def imported_definition_def
        buildEditAppTool_def storeEnhancedRequest_def console_log_def)

lemma step_text:
  "extractedUserResponse (perform_step (turn_tools ext a) (onChunk a) st t) =
     extractedUserResponse t @ streamed_text [st]"
  by (cases st)
     (simp_all add: onChunk_def logger_info_def conversationResponseCallback_def Let_def
        turn_tools_def attachLifecycle_def invoke_def imported_definition_def
        buildEditAppTool_def storeEnhancedRequest_def console_log_def)

lemma step_request:
  "extractedEnhancedRequest (perform_step (turn_tools ext a) (onChunk a) st t) =
     queued_request (extractedEnhancedRequest t) [st]"
  by (cases st)
     (simp_all add: onChunk_def logger_info_def conversationResponseCallback_def Let_def
        turn_tools_def attachLifecycle_def invoke_def imported_definition_def
        buildEditAppTool_def storeEnhancedRequest_def console_log_def)

lemma steps_arrays:
  "arrays (fold (perform_step (turn_tools ext a) (onChunk a)) ss t) = arrays t"
  by (induction ss arbitrary: t) (simp_all add: step_arrays)

lemma steps_ids:
  "ids_issued (fold (perform_step (turn_tools ext a) (onChunk a)) ss t) = ids_issued t"
  by (induction ss arbitrary: t) (simp_all add: step_ids)

lemma streamed_text_Cons: "streamed_text (st # ss) = streamed_text [st] @ streamed_text ss"
  by (cases st) simp_all

lemma queued_request_Cons: "queued_request cur (st # ss) = queued_request (queued_request cur [st]) ss"
  by (cases st) simp_all

lemma steps_text:
  "extractedUserResponse (fold (perform_step (turn_tools ext a) (onChunk a)) ss t) =
     extractedUserResponse t @ streamed_text ss"
proof (induction ss arbitrary: t)
  case Nil
  show ?case by simp
next
  case (Cons st ss)
  show ?case
    using Cons.IH [of "perform_step (turn_tools ext a) (onChunk a) st t"]
    by (simp add: step_text streamed_text_Cons [of st ss])
qed

lemma steps_request:
  "extractedEnhancedRequest (fold (perform_step (turn_tools ext a) (onChunk a)) ss t) =
     queued_request (extractedEnhancedRequest t) ss"
proof (induction ss arbitrary: t)
  case Nil
  show ?case by simp
next
  case (Cons st ss)
  show ?case
    using Cons.IH [of "perform_step (turn_tools ext a) (onChunk a) st t"]
    by (simp add: step_request queued_request_Cons [of _ st ss])
qed

lemma tag_messages_fst:
  "fst (tag_messages ids ms t) =
     map (\<lambda>(m, k). m\<lparr>conversationId := Some (ids k)\<rparr>)
         (zip ms [ids_issued t ..< ids_issued t + length ms])"
proof (induction ms arbitrary: t)
  case Nil
  show ?case by simp
next
  case (Cons m ms)
  have "[ids_issued t ..< ids_issued t + length (m # ms)] =
        ids_issued t # [Suc (ids_issued t) ..< Suc (ids_issued t) + length ms]"
    by (simp add: upt_rec)
  then show ?case
    using Cons.IH [of "t\<lparr>ids_issued := Suc (ids_issued t)\<rparr>"]
    by (simp add: generateConversationId_def split_def Let_def)
qed

lemma tag_messages_snd:
  "snd (tag_messages ids ms t) = t\<lparr>ids_issued := ids_issued t + length ms\<rparr>"
proof (induction ms arbitrary: t)
  case Nil
  show ?case by simp
next
  case (Cons m ms)
  show ?case
    using Cons.IH [of "t\<lparr>ids_issued := Suc (ids_issued t)\<rparr>"]
    by (simp add: generateConversationId_def split_def Let_def)
qed


lemma before_inference_fields:
  "arrays (before_inference ext inputs t0) =
     arrays t0 @ [read_array t0 (pastMessages inputs) @
             [\<lparr>role = User, content = Text (userMessage inputs),
               conversationId = Some (conversation_ids ext (ids_issued t0))\<rparr>]]"
  "ids_issued (before_inference ext inputs t0) = Suc (Suc (ids_issued t0))"
  "extractedUserResponse (before_inference ext inputs t0) = []"
  "extractedEnhancedRequest (before_inference ext inputs t0) = []"
  by (simp_all add: before_inference_def generateConversationId_def new_array_def
        read_array_def logger_info_def createUserMessage_def Let_def)

lemma try_block_unfold:
  "try_block ext inputs t0 =
     (case outcome (inference ext (inference_request ext inputs t0)) of
        Inl err \<Rightarrow> (Inl err, after_inference ext inputs t0)
      | Inr result \<Rightarrow> on_success ext (length (arrays t0)) result (after_inference ext inputs t0))"
proof -
  have req: "\<lparr>args_messages = systemPrompts ext @
               read_array (before_inference ext inputs t0) (length (arrays t0)),
             agentActionName = ''conversationalResponse'', chunk_size = CHUNK_SIZE\<rparr> =
             inference_request ext inputs t0"
    by (simp add: inference_request_def read_array_def before_inference_fields CHUNK_SIZE_def)
  show ?thesis
    unfolding try_block_def after_inference_def req [symmetric]
    by (simp add: before_inference_def generateConversationId_def new_array_def
          executeInference_def Let_def split: sum.split)
qed

lemma after_inference_fields:
  "arrays (after_inference ext inputs t0) =
     arrays t0 @ [read_array t0 (pastMessages inputs) @
             [\<lparr>role = User, content = Text (userMessage inputs),
               conversationId = Some (conversation_ids ext (ids_issued t0))\<rparr>]]"
  "ids_issued (after_inference ext inputs t0) = Suc (Suc (ids_issued t0))"
  "extractedUserResponse (after_inference ext inputs t0) =
     streamed_text (steps (inference ext (inference_request ext inputs t0)))"
  "extractedEnhancedRequest (after_inference ext inputs t0) =
     queued_request [] (steps (inference ext (inference_request ext inputs t0)))"
  by (simp_all add: after_inference_def steps_arrays steps_ids steps_text steps_request
        before_inference_fields)


lemma on_success_fst:
  "fst (on_success ext r result t) =
     Inr \<lparr>conversationResponse =
            \<lparr>enhancedUserRequest = extractedEnhancedRequest t,
             userResponse = extractedUserResponse t\<rparr>,
          messages = r\<rparr>"
  by (simp add: on_success_def Let_def split_def logger_info_def)

lemma on_success_arrays:
  assumes "r < length (arrays t)"
  shows "arrays (snd (on_success ext r result t)) =
     (arrays t)[r := arrays t ! r @
        tagged_from (conversation_ids ext) (ids_issued t) (kept_messages result) @
        [\<lparr>role = Assistant, content = Text (result_string result),
          conversationId = Some (conversation_ids ext (ids_issued t + length (kept_messages result)))\<rparr>]]"
  using assms
  by (simp add: on_success_def Let_def split_def logger_info_def tag_messages_fst
        tag_messages_snd array_push_def generateConversationId_def createAssistantMessage_def
        kept_messages_def tagged_from_def)

lemma on_success_ids:
  "ids_issued (snd (on_success ext r result t)) =
     Suc (ids_issued t + length (kept_messages result))"
  by (simp add: on_success_def Let_def split_def logger_info_def tag_messages_fst
        tag_messages_snd array_push_def generateConversationId_def kept_messages_def)

lemma inference_request_logged [simp]:
  "inference_request ext inputs (logger_info msg t) = inference_request ext inputs t"
  by (simp add: inference_request_def logger_info_def read_array_def)

lemma execute_unfold:
  "execute ext inputs t0 =
     (case outcome (inference ext (inference_request ext inputs t0)) of
        Inl err \<Rightarrow> catch_block ext inputs err
                     (after_inference ext inputs (logger_info ''Processing user message'' t0))
      | Inr result \<Rightarrow> on_success ext (length (arrays t0)) result
                     (after_inference ext inputs (logger_info ''Processing user message'' t0)))"
proof (cases "outcome (inference ext (inference_request ext inputs t0))")
  case (Inl err)
  then show ?thesis
    by (simp add: execute_def try_block_unfold Let_def)
next
  case (Inr result)
  have len: "length (arrays (logger_info ''Processing user message'' t0)) = length (arrays t0)"
    by (simp add: logger_info_def)
  obtain out t' where os: "on_success ext (length (arrays t0)) result
     (after_inference ext inputs (logger_info ''Processing user message'' t0)) = (out, t')"
    by (cases "on_success ext (length (arrays t0)) result
     (after_inference ext inputs (logger_info ''Processing user message'' t0))")
  have "fst (on_success ext (length (arrays t0)) result
     (after_inference ext inputs (logger_info ''Processing user message'' t0))) = out"
    by (simp add: os)
  then obtain v where "out = Inr v"
    unfolding on_success_fst by blast
  then show ?thesis
    using Inr os by (simp add: execute_def try_block_unfold Let_def len)
qed


lemma after_inference_logged_fields:
  "arrays (after_inference ext inputs (logger_info msg t0)) =
     arrays t0 @ [read_array t0 (pastMessages inputs) @
             [\<lparr>role = User, content = Text (userMessage inputs),
               conversationId = Some (conversation_ids ext (ids_issued t0))\<rparr>]]"
  "ids_issued (after_inference ext inputs (logger_info msg t0)) = Suc (Suc (ids_issued t0))"
  "extractedUserResponse (after_inference ext inputs (logger_info msg t0)) =
     streamed_text (steps (inference ext (inference_request ext inputs t0)))"
  "extractedEnhancedRequest (after_inference ext inputs (logger_info msg t0)) =
     queued_request [] (steps (inference ext (inference_request ext inputs t0)))"
  by (simp_all add: after_inference_fields)
     (simp_all add: logger_info_def read_array_def)

lemma execute_returns:
  assumes "outcome (inference ext (inference_request ext inputs t0)) = Inr result"
  shows "fst (execute ext inputs t0) =
           Inr \<lparr>conversationResponse =
                  \<lparr>enhancedUserRequest =
                     queued_request [] (steps (inference ext (inference_request ext inputs t0))),
                   userResponse =
                     streamed_text (steps (inference ext (inference_request ext inputs t0)))\<rparr>,
                messages = length (arrays t0)\<rparr>"
    and "arrays (snd (execute ext inputs t0)) =
           arrays t0 @
           [read_array t0 (pastMessages inputs) @
            [\<lparr>role = User, content = Text (userMessage inputs),
              conversationId = Some (conversation_ids ext (ids_issued t0))\<rparr>] @
            tagged_from (conversation_ids ext) (Suc (Suc (ids_issued t0))) (kept_messages result) @
            [\<lparr>role = Assistant, content = Text (result_string result),
              conversationId =
                Some (conversation_ids ext (Suc (Suc (ids_issued t0)) + length (kept_messages result)))\<rparr>]]"
proof -
  let ?t = "after_inference ext inputs (logger_info ''Processing user message'' t0)"
  have ex: "execute ext inputs t0 = on_success ext (length (arrays t0)) result ?t"
    using assms by (simp add: execute_unfold)
  show "fst (execute ext inputs t0) =
           Inr \<lparr>conversationResponse =
                  \<lparr>enhancedUserRequest =
                     queued_request [] (steps (inference ext (inference_request ext inputs t0))),
                   userResponse =
                     streamed_text (steps (inference ext (inference_request ext inputs t0)))\<rparr>,
                messages = length (arrays t0)\<rparr>"
    by (simp add: ex on_success_fst after_inference_logged_fields)
  have "length (arrays t0) < length (arrays ?t)"
    by (simp add: after_inference_logged_fields)
  then have "arrays (snd (on_success ext (length (arrays t0)) result ?t)) =
     (arrays ?t)[length (arrays t0) := arrays ?t ! length (arrays t0) @
        tagged_from (conversation_ids ext) (ids_issued ?t) (kept_messages result) @
        [\<lparr>role = Assistant, content = Text (result_string result),
          conversationId = Some (conversation_ids ext (ids_issued ?t + length (kept_messages result)))\<rparr>]]"
    by (rule on_success_arrays)
  then show "arrays (snd (execute ext inputs t0)) =
           arrays t0 @
           [read_array t0 (pastMessages inputs) @
            [\<lparr>role = User, content = Text (userMessage inputs),
              conversationId = Some (conversation_ids ext (ids_issued t0))\<rparr>] @
            tagged_from (conversation_ids ext) (Suc (Suc (ids_issued t0))) (kept_messages result) @
            [\<lparr>role = Assistant, content = Text (result_string result),
              conversationId =
                Some (conversation_ids ext (Suc (Suc (ids_issued t0)) + length (kept_messages result)))\<rparr>]]"
    by (simp add: ex after_inference_logged_fields)
qed

lemma catch_block_rethrows:
  "instanceof_RateLimitExceededError err \<or> instanceof_SecurityError err \<Longrightarrow>
   catch_block ext inputs err t = (Inl err, logger_error ''Error processing user message:'' t)"
  by (simp add: catch_block_def Let_def)

lemma catch_block_fallback:
  assumes "\<not> instanceof_RateLimitExceededError err" and "\<not> instanceof_SecurityError err"
  shows "fst (catch_block ext inputs err t) =
           Inr \<lparr>conversationResponse =
                  \<lparr>enhancedUserRequest = ''User request: '' @ userMessage inputs,
                   userResponse = FALLBACK_USER_RESPONSE\<rparr>,
                messages = length (arrays t)\<rparr>"
    and "arrays (snd (catch_block ext inputs err t)) =
           arrays t @
           [read_array t (pastMessages inputs) @
            [\<lparr>role = User, content = Text (userMessage inputs),
              conversationId = Some (conversation_ids ext (ids_issued t))\<rparr>,
             \<lparr>role = Assistant, content = Text FALLBACK_USER_RESPONSE,
              conversationId = Some (conversation_ids ext (Suc (ids_issued t)))\<rparr>]]"
  using assms
  by (simp_all add: catch_block_def Let_def split_def generateConversationId_def new_array_def
        logger_error_def read_array_def createUserMessage_def createAssistantMessage_def)

lemma execute_falls_back:
  assumes "outcome (inference ext (inference_request ext inputs t0)) = Inl err"
      and "\<not> instanceof_RateLimitExceededError err" and "\<not> instanceof_SecurityError err"
      and "pastMessages inputs < length (arrays t0)"
  shows "fst (execute ext inputs t0) =
           Inr \<lparr>conversationResponse =
                  \<lparr>enhancedUserRequest = ''User request: '' @ userMessage inputs,
                   userResponse = FALLBACK_USER_RESPONSE\<rparr>,
                messages = Suc (length (arrays t0))\<rparr>"
    and "arrays (snd (execute ext inputs t0)) =
           arrays t0 @
           [read_array t0 (pastMessages inputs) @
            [\<lparr>role = User, content = Text (userMessage inputs),
              conversationId = Some (conversation_ids ext (ids_issued t0))\<rparr>],
            read_array t0 (pastMessages inputs) @
            [\<lparr>role = User, content = Text (userMessage inputs),
              conversationId = Some (conversation_ids ext (Suc (Suc (ids_issued t0))))\<rparr>,
             \<lparr>role = Assistant, content = Text FALLBACK_USER_RESPONSE,
              conversationId = Some (conversation_ids ext (Suc (Suc (Suc (ids_issued t0)))))\<rparr>]]"
proof -
  let ?t = "after_inference ext inputs (logger_info ''Processing user message'' t0)"
  have ex: "execute ext inputs t0 = catch_block ext inputs err ?t"
    using assms(1) by (simp add: execute_unfold)
  have rd: "read_array ?t (pastMessages inputs) = read_array t0 (pastMessages inputs)"
    using assms(4) by (simp add: read_array_def after_inference_logged_fields nth_append)
  show "fst (execute ext inputs t0) =
           Inr \<lparr>conversationResponse =
                  \<lparr>enhancedUserRequest = ''User request: '' @ userMessage inputs,
                   userResponse = FALLBACK_USER_RESPONSE\<rparr>,
                messages = Suc (length (arrays t0))\<rparr>"
    using assms(2,3) by (simp add: ex catch_block_fallback after_inference_logged_fields)
  show "arrays (snd (execute ext inputs t0)) =
           arrays t0 @
           [read_array t0 (pastMessages inputs) @
            [\<lparr>role = User, content = Text (userMessage inputs),
              conversationId = Some (conversation_ids ext (ids_issued t0))\<rparr>],
            read_array t0 (pastMessages inputs) @
            [\<lparr>role = User, content = Text (userMessage inputs),
              conversationId = Some (conversation_ids ext (Suc (Suc (ids_issued t0))))\<rparr>,
             \<lparr>role = Assistant, content = Text FALLBACK_USER_RESPONSE,
              conversationId = Some (conversation_ids ext (Suc (Suc (Suc (ids_issued t0)))))\<rparr>]]"
    using assms(2,3) by (simp add: ex catch_block_fallback rd after_inference_logged_fields)
qed

lemma execute_rethrows:
  assumes "outcome (inference ext (inference_request ext inputs t0)) = Inl err"
      and "instanceof_RateLimitExceededError err \<or> instanceof_SecurityError err"
  shows "fst (execute ext inputs t0) = Inl err"
    and "arrays (snd (execute ext inputs t0)) =
           arrays t0 @
           [read_array t0 (pastMessages inputs) @
            [\<lparr>role = User, content = Text (userMessage inputs),
              conversationId = Some (conversation_ids ext (ids_issued t0))\<rparr>]]"
proof -
  let ?t = "after_inference ext inputs (logger_info ''Processing user message'' t0)"
  have ex: "execute ext inputs t0 = (Inl err, logger_error ''Error processing user message:'' ?t)"
    using assms by (simp add: execute_unfold catch_block_rethrows)
  show "fst (execute ext inputs t0) = Inl err"
    by (simp add: ex)
  show "arrays (snd (execute ext inputs t0)) =
           arrays t0 @
           [read_array t0 (pastMessages inputs) @
            [\<lparr>role = User, content = Text (userMessage inputs),
              conversationId = Some (conversation_ids ext (ids_issued t0))\<rparr>]]"
    by (simp add: ex logger_error_def after_inference_logged_fields)
qed

lemma inj_sample_ids: "inj sample_ids"
proof (rule injI)
  fix x y assume "sample_ids x = sample_ids y"
  then have "length (replicate x (CHR ''i'')) = length (replicate y (CHR ''i''))"
    by (simp add: sample_ids_def)
  then show "x = y" by simp
qed

lemma is_internal_memo_tagged [simp]:
  "is_internal_memo (m\<lparr>conversationId := c\<rparr>) = is_internal_memo m"
  by (simp add: is_internal_memo_def)

lemma map_zip_snd: "length xs = length ys \<Longrightarrow> map (\<lambda>x. f (snd x)) (zip xs ys) = map f ys"
  by (induction xs ys rule: list_induct2) simp_all

lemma map_zip_fst: "length xs = length ys \<Longrightarrow> map (\<lambda>x. f (fst x)) (zip xs ys) = map f xs"
  by (induction xs ys rule: list_induct2) simp_all

lemma tagged_from_ids:
  "map conversationId (tagged_from ids n ms) = map (\<lambda>k. Some (ids k)) [n ..< n + length ms]"
  by (simp add: tagged_from_def split_def comp_def map_zip_snd [where f = "\<lambda>k. Some (ids k)"])

lemma tagged_from_untagged:
  "map (\<lambda>m. m\<lparr>conversationId := None\<rparr>) (tagged_from ids n ms) =
   map (\<lambda>m. m\<lparr>conversationId := None\<rparr>) ms"
  by (simp add: tagged_from_def split_def comp_def map_zip_fst)

lemma tagged_from_no_memo:
  "\<not> list_ex is_internal_memo (tagged_from ids n (kept_messages result))"
proof -
  have "m \<in> set (tagged_from ids n ms) \<Longrightarrow> \<exists>m' \<in> set ms. is_internal_memo m = is_internal_memo m'" for m ms
    by (auto simp: tagged_from_def dest: set_zip_leftD)
  moreover have "\<forall>m' \<in> set (kept_messages result). \<not> is_internal_memo m'"
    by (simp add: kept_messages_def)
  ultimately show ?thesis
    by (fastforce simp: list_ex_iff)
qed

lemma returned_messages_eq:
  "fst r = Inr outputs \<Longrightarrow> returned_messages r = Some (arrays (snd r) ! messages outputs)"
  by (simp add: returned_messages_def read_array_def)

text \<open>
  C3. When the inference call returns, the array \<open>execute\<close> returns holds the original
  history, then the user message, then the new messages of the inference result without
  the assistant messages whose text contains the internal-memo marker, then one final
  assistant message. With an id generator that never repeats an id, the appended
  messages all carry an id and the ids are pairwise distinct; the appended copies differ
  from the kept new messages in the id only, and none of them is an internal memo.
\<close>

theorem execute_success_history:
  fixes ext inputs t0 result
  defines "past \<equiv> read_array t0 (pastMessages inputs)"
      and "n \<equiv> ids_issued t0"
      and "ids \<equiv> conversation_ids ext"
      and "kept \<equiv> filter (\<lambda>message. \<not> is_internal_memo message)
                     (case newMessages result of None \<Rightarrow> [] | Some ms \<Rightarrow> ms)"
  defines "user \<equiv> \<lparr>role = User, content = Text (userMessage inputs), conversationId = Some (ids n)\<rparr>"
      and "tagged \<equiv> map (\<lambda>(m, k). m\<lparr>conversationId := Some (ids k)\<rparr>)
                        (zip kept [n + 2 ..< n + 2 + length kept])"
      and "final \<equiv> \<lparr>role = Assistant, content = Text (result_string result),
                      conversationId = Some (ids (n + 2 + length kept))\<rparr>"
  assumes succeeds: "outcome (inference ext (inference_request ext inputs t0)) = Inr result"
      and fresh: "inj (conversation_ids ext)"
  shows "returned_messages (execute ext inputs t0) = Some (past @ [user] @ tagged @ [final])
       \<and> map (\<lambda>m. m\<lparr>conversationId := None\<rparr>) tagged = map (\<lambda>m. m\<lparr>conversationId := None\<rparr>) kept
       \<and> distinct (map conversationId ([user] @ tagged @ [final]))
       \<and> None \<notin> set (map conversationId ([user] @ tagged @ [final]))
       \<and> \<not> list_ex is_internal_memo tagged"
proof -
  have kept: "kept = kept_messages result"
    by (simp add: kept_def kept_messages_def)
  have tagged: "tagged = tagged_from ids (Suc (Suc n)) kept"
    by (simp add: tagged_def tagged_from_def)
  have a: "returned_messages (execute ext inputs t0) = Some (past @ [user] @ tagged @ [final])"
    using execute_returns [OF succeeds]
    by (simp add: returned_messages_eq kept tagged past_def user_def final_def n_def ids_def)
  have b: "map (\<lambda>m. m\<lparr>conversationId := None\<rparr>) tagged = map (\<lambda>m. m\<lparr>conversationId := None\<rparr>) kept"
    by (simp add: tagged tagged_from_untagged)
  have idl: "map conversationId ([user] @ tagged @ [final]) =
             map (\<lambda>k. Some (ids k)) (n # [Suc (Suc n) ..< Suc (Suc n) + length kept] @ [Suc (Suc n) + length kept])"
    by (simp add: tagged tagged_from_ids user_def final_def)
  have "distinct (n # [Suc (Suc n) ..< Suc (Suc n) + length kept] @ [Suc (Suc n) + length kept])"
    by auto
  moreover have "inj_on (\<lambda>k. Some (ids k)) A" for A
    using fresh by (auto simp: inj_on_def ids_def dest: injD)
  ultimately have c: "distinct (map conversationId ([user] @ tagged @ [final]))"
    unfolding idl distinct_map by blast
  have d: "None \<notin> set (map conversationId ([user] @ tagged @ [final]))"
    unfolding idl by auto
  have e: "\<not> list_ex is_internal_memo tagged"
    unfolding tagged kept by (rule tagged_from_no_memo)
  from a b c d e show ?thesis by blast
qed


theorem execute_success_history_witness:
  "returned_messages (execute (sample_collaborators sample_run) sample_inputs sample_turn) =
     Some [\<lparr>role = User, content = Text ''hello'', conversationId = Some ''h''\<rparr>,
           \<lparr>role = User, content = Text ''add a dark mode toggle'', conversationId = Some ''id-''\<rparr>,
           \<lparr>role = Tool, content = Text ''queued'', conversationId = Some ''id-ii''\<rparr>,
           \<lparr>role = Assistant, content = Text ''Sure, adding it now.'', conversationId = Some ''id-iii''\<rparr>]"
  using execute_success_history
          [of "sample_collaborators sample_run" sample_inputs sample_turn sample_result]
        inj_sample_ids
  by (simp add: sample_collaborators_def sample_run_def sample_result_def sample_inputs_def
        sample_turn_def sample_memo_def sample_trace_def sample_ids_def is_internal_memo_def
        read_array_def upt_rec)

lemma returned_response_eq:
  "fst r = Inr outputs \<Longrightarrow> returned_response r = Some (conversationResponse outputs)"
  by (simp add: returned_response_def)





text \<open>
  C6, as stated, fails: the final assistant message is built from the string the
  inference call returns, not from the accumulated fragments. An engine that streams
  \<open>"Sure, "\<close> and returns the string \<open>"Done."\<close> yields the user response \<open>"Sure, "\<close> and a
  final message whose content is \<open>"Done."\<close>.
\<close>

theorem final_message_not_accumulated_text:
  "returned_response (execute (sample_collaborators mismatched_run) sample_inputs sample_turn) =
     Some \<lparr>enhancedUserRequest = [], userResponse = ''Sure, ''\<rparr>
   \<and> map_option (\<lambda>ms. content (last ms))
       (returned_messages (execute (sample_collaborators mismatched_run) sample_inputs sample_turn)) =
     Some (Text ''Done.'')
   \<and> map_option (\<lambda>ms. content (last ms))
       (returned_messages (execute (sample_collaborators mismatched_run) sample_inputs sample_turn)) \<noteq>
     map_option (\<lambda>r. Text (userResponse r))
       (returned_response (execute (sample_collaborators mismatched_run) sample_inputs sample_turn))"
proof -
  have run: "outcome (inference (sample_collaborators mismatched_run)
               (inference_request (sample_collaborators mismatched_run) sample_inputs sample_turn)) =
             Inr \<lparr>result_string = ''Done.'', newMessages = None\<rparr>"
    by (simp add: sample_collaborators_def mismatched_run_def)
  note ex = execute_returns [OF run]
  have a: "returned_response (execute (sample_collaborators mismatched_run) sample_inputs sample_turn) =
     Some \<lparr>enhancedUserRequest = [], userResponse = ''Sure, ''\<rparr>"
    using ex(1)
    by (simp add: returned_response_eq sample_collaborators_def mismatched_run_def)
  have b: "map_option (\<lambda>ms. content (last ms))
       (returned_messages (execute (sample_collaborators mismatched_run) sample_inputs sample_turn)) =
     Some (Text ''Done.'')"
    using ex by (simp add: returned_messages_eq)
  show ?thesis
    unfolding a b by simp
qed

text \<open>
  C6, amended. When the inference call returns, the final assistant message of the
  returned array has as content the string the call returned. The turn's result pairs
  the text accumulated from the streamed fragments, as the user response, with the
  enhanced request: the description of the last queue-an-edit invocation of the turn,
  empty when there was none. Neither output is computed from the other.
\<close>

theorem execute_success_outputs:
  assumes "outcome (inference ext (inference_request ext inputs t0)) = Inr result"
  shows "returned_response (execute ext inputs t0) =
           Some \<lparr>enhancedUserRequest =
                   queued_request [] (steps (inference ext (inference_request ext inputs t0))),
                 userResponse =
                   streamed_text (steps (inference ext (inference_request ext inputs t0)))\<rparr>
       \<and> map_option last (returned_messages (execute ext inputs t0)) =
           Some \<lparr>role = Assistant, content = Text (result_string result),
                 conversationId =
                   Some (conversation_ids ext (ids_issued t0 + 2 + length (kept_messages result)))\<rparr>"
  using execute_returns [OF assms]
  by (simp add: returned_response_eq returned_messages_eq)

theorem execute_success_outputs_witness:
  "returned_response (execute (sample_collaborators sample_run) sample_inputs sample_turn) =
     Some \<lparr>enhancedUserRequest = ''add a dark mode toggle'', userResponse = ''Sure, adding it now.''\<rparr>
   \<and> map_option last (returned_messages (execute (sample_collaborators sample_run) sample_inputs sample_turn)) =
     Some \<lparr>role = Assistant, content = Text ''Sure, adding it now.'', conversationId = Some ''id-iii''\<rparr>"
  using execute_success_outputs
          [of "sample_collaborators sample_run" sample_inputs sample_turn sample_result]
  by (simp add: sample_collaborators_def sample_run_def sample_result_def sample_inputs_def
        sample_turn_def sample_memo_def sample_trace_def sample_ids_def sample_steps_def
        is_internal_memo_def kept_messages_def)

lemma execute_store_grows:
  assumes "pastMessages inputs < length (arrays t0)"
  shows "take (length (arrays t0)) (arrays (snd (execute ext inputs t0))) = arrays t0"
proof (cases "outcome (inference ext (inference_request ext inputs t0))")
  case (Inr result)
  show ?thesis
    using execute_returns(2) [OF Inr] by simp
next
  case (Inl err)
  show ?thesis
  proof (cases "instanceof_RateLimitExceededError err \<or> instanceof_SecurityError err")
    case True
    show ?thesis
      using execute_rethrows(2) [OF Inl True] by simp
  next
    case False
    then have "\<not> instanceof_RateLimitExceededError err" and "\<not> instanceof_SecurityError err"
      by simp_all
    from execute_falls_back(2) [OF Inl this assms] show ?thesis by simp
  qed
qed

lemma execute_result_is_new:
  assumes "pastMessages inputs < length (arrays t0)"
      and "fst (execute ext inputs t0) = Inr outputs"
  shows "length (arrays t0) \<le> messages outputs
       \<and> messages outputs < length (arrays (snd (execute ext inputs t0)))
       \<and> take (length (read_array t0 (pastMessages inputs)))
            (read_array (snd (execute ext inputs t0)) (messages outputs)) =
          read_array t0 (pastMessages inputs)"
proof (cases "outcome (inference ext (inference_request ext inputs t0))")
  case (Inr result)
  show ?thesis
    using execute_returns [OF Inr] assms(2) by (auto simp: read_array_def)
next
  case (Inl err)
  show ?thesis
  proof (cases "instanceof_RateLimitExceededError err \<or> instanceof_SecurityError err")
    case True
    show ?thesis
      using execute_rethrows(1) [OF Inl True] assms(2) by simp
  next
    case False
    then have "\<not> instanceof_RateLimitExceededError err" and "\<not> instanceof_SecurityError err"
      by simp_all
    from execute_falls_back [OF Inl this assms(1)] assms(2) show ?thesis
      by (auto simp: read_array_def nth_append)
  qed
qed

text \<open>
  C10. \<open>execute\<close> does not change the array it receives as \<open>pastMessages\<close>, nor any other
  array that existed before the call, whatever the inference call does. When it
  returns a result, on the success path as on the fallback path, \<open>messages\<close> refers to an
  array allocated during the call, hence not to the input array, and that array begins
  with the entries of \<open>pastMessages\<close> in their order.
\<close>

theorem execute_leaves_pastMessages:
  assumes "pastMessages inputs < length (arrays t0)"
  shows "read_array (snd (execute ext inputs t0)) (pastMessages inputs) =
           read_array t0 (pastMessages inputs)
       \<and> take (length (arrays t0)) (arrays (snd (execute ext inputs t0))) = arrays t0
       \<and> (\<forall>outputs. fst (execute ext inputs t0) = Inr outputs \<longrightarrow>
            messages outputs \<noteq> pastMessages inputs
          \<and> length (arrays t0) \<le> messages outputs
          \<and> messages outputs < length (arrays (snd (execute ext inputs t0)))
          \<and> take (length (read_array t0 (pastMessages inputs)))
               (read_array (snd (execute ext inputs t0)) (messages outputs)) =
             read_array t0 (pastMessages inputs))"
proof -
  note grows = execute_store_grows [OF assms, of ext]
  have "arrays (snd (execute ext inputs t0)) ! pastMessages inputs =
        take (length (arrays t0)) (arrays (snd (execute ext inputs t0))) ! pastMessages inputs"
    using assms by simp
  then have a: "read_array (snd (execute ext inputs t0)) (pastMessages inputs) =
           read_array t0 (pastMessages inputs)"
    by (simp add: grows read_array_def)
  show ?thesis
    using a grows execute_result_is_new [OF assms, of ext] assms by fastforce
qed

theorem execute_leaves_pastMessages_witness:
  "read_array (snd (execute (sample_collaborators sample_run) sample_inputs sample_turn)) 0 =
     [\<lparr>role = User, content = Text ''hello'', conversationId = Some ''h''\<rparr>]
   \<and> fst (execute (sample_collaborators sample_run) sample_inputs sample_turn) =
       Inr \<lparr>conversationResponse =
              \<lparr>enhancedUserRequest = ''add a dark mode toggle'', userResponse = ''Sure, adding it now.''\<rparr>,
            messages = 1\<rparr>
   \<and> take 1 (read_array (snd (execute (sample_collaborators sample_run) sample_inputs sample_turn)) 1) =
     [\<lparr>role = User, content = Text ''hello'', conversationId = Some ''h''\<rparr>]
   \<and> read_array (snd (execute (sample_collaborators (failing_run (NonError (JStr ''unavailable''))))
        sample_inputs sample_turn)) 0 =
     [\<lparr>role = User, content = Text ''hello'', conversationId = Some ''h''\<rparr>]
   \<and> fst (execute (sample_collaborators (failing_run (NonError (JStr ''unavailable'')))) sample_inputs sample_turn) =
       Inr \<lparr>conversationResponse =
              \<lparr>enhancedUserRequest = ''User request: add a dark mode toggle'',
               userResponse = FALLBACK_USER_RESPONSE\<rparr>,
            messages = 2\<rparr>
   \<and> take 1 (read_array (snd (execute (sample_collaborators (failing_run (NonError (JStr ''unavailable''))))
        sample_inputs sample_turn)) 2) =
     [\<lparr>role = User, content = Text ''hello'', conversationId = Some ''h''\<rparr>]"
proof -
  have valid: "pastMessages sample_inputs < length (arrays sample_turn)"
    by (simp add: sample_inputs_def sample_turn_def)
  have run: "outcome (inference (sample_collaborators sample_run)
               (inference_request (sample_collaborators sample_run) sample_inputs sample_turn)) =
             Inr sample_result"
    by (simp add: sample_collaborators_def sample_run_def)
  have out: "fst (execute (sample_collaborators sample_run) sample_inputs sample_turn) =
       Inr \<lparr>conversationResponse =
              \<lparr>enhancedUserRequest = ''add a dark mode toggle'', userResponse = ''Sure, adding it now.''\<rparr>,
            messages = 1\<rparr>"
    using execute_returns(1) [OF run]
    by (simp add: sample_collaborators_def sample_run_def sample_steps_def sample_turn_def)
  have fails: "outcome (inference (sample_collaborators (failing_run (NonError (JStr ''unavailable''))))
               (inference_request (sample_collaborators (failing_run (NonError (JStr ''unavailable''))))
                  sample_inputs sample_turn)) =
             Inl (NonError (JStr ''unavailable''))"
    by (simp add: sample_collaborators_def failing_run_def)
  have out': "fst (execute (sample_collaborators (failing_run (NonError (JStr ''unavailable'')))) sample_inputs sample_turn) =
       Inr \<lparr>conversationResponse =
              \<lparr>enhancedUserRequest = ''User request: add a dark mode toggle'',
               userResponse = FALLBACK_USER_RESPONSE\<rparr>,
            messages = 2\<rparr>"
    using execute_falls_back(1) [OF fails _ _ valid]
    by (simp add: sample_inputs_def sample_turn_def)
  show ?thesis
    using execute_leaves_pastMessages [OF valid, of "sample_collaborators sample_run"] out
          execute_leaves_pastMessages
            [OF valid, of "sample_collaborators (failing_run (NonError (JStr ''unavailable'')))"] out'
    by (simp add: sample_inputs_def sample_turn_def read_array_def)
qed


text \<open>
  C9, as stated, fails in its last part: the \<open>catch\<close> calls \<open>logger.error\<close> before it
  returns the empty array. With a logger whose \<open>info\<close> and \<open>error\<close> both throw, the
  method raises what \<open>logger.error\<close> threw and returns nothing.
\<close>

theorem processProjectUpdates_raises_with_broken_logger:
  "fst (processProjectUpdates sample_ids None sample_wire CODE_REVIEW (JNum 1) broken_logger sample_turn) =
     Inl (ErrorObject PlainError ''log sink closed'')
   \<and> fst (processProjectUpdates sample_ids None sample_wire CODE_REVIEW (JNum 1) broken_logger sample_turn) \<noteq>
     Inr []"
  by (simp add: processProjectUpdates_def update_catch_def broken_logger_def)

text \<open>
  C9, amended. With \<open>logger.info\<close> and the id generator returning, \<open>processProjectUpdates\<close>
  yields one assistant message whose text is the internal memo for the update type,
  whatever the data payload is, under the next id of the generator. Two calls in a row
  with the same update type give the same text and, with a generator that never repeats
  an id, different ids. The message is one the filter of \<open>execute\<close> classes as an
  internal memo. When a call inside the \<open>try\<close> throws and the \<open>logger.error\<close> of the
  handler returns, the result is the empty list and nothing is raised; when that
  \<open>logger.error\<close> throws, what it throws is raised.
\<close>

theorem processProjectUpdates_twice:
  fixes d1 :: 'a and d2 :: 'b and d3 :: 'c
  assumes "inj ids"
  shows "fst (processProjectUpdates ids None wire updateType d1 (logger\<lparr>info_throws := None\<rparr>) t0) =
           Inr [\<lparr>role = Assistant, content = Text (preparedMessage wire updateType),
                 conversationId = Some (ids (ids_issued t0))\<rparr>]
       \<and> fst (processProjectUpdates ids None wire updateType d2 (logger\<lparr>info_throws := None\<rparr>)
               (snd (processProjectUpdates ids None wire updateType d1 (logger\<lparr>info_throws := None\<rparr>) t0))) =
           Inr [\<lparr>role = Assistant, content = Text (preparedMessage wire updateType),
                 conversationId = Some (ids (Suc (ids_issued t0)))\<rparr>]
       \<and> map content (projr (fst (processProjectUpdates ids None wire updateType d1
               (logger\<lparr>info_throws := None\<rparr>) t0))) =
         map content (projr (fst (processProjectUpdates ids None wire updateType d2
               (logger\<lparr>info_throws := None\<rparr>)
               (snd (processProjectUpdates ids None wire updateType d1 (logger\<lparr>info_throws := None\<rparr>) t0)))))
       \<and> map conversationId (projr (fst (processProjectUpdates ids None wire updateType d1
               (logger\<lparr>info_throws := None\<rparr>) t0))) \<noteq>
         map conversationId (projr (fst (processProjectUpdates ids None wire updateType d2
               (logger\<lparr>info_throws := None\<rparr>)
               (snd (processProjectUpdates ids None wire updateType d1 (logger\<lparr>info_throws := None\<rparr>) t0)))))
       \<and> list_all is_internal_memo (projr (fst (processProjectUpdates ids None wire updateType d1
               (logger\<lparr>info_throws := None\<rparr>) t0)))
       \<and> preparedMessage wire updateType =
           ''**<Internal Memo>**'' @ [CHR 0x0A] @ ''Project Updates: '' @ wire updateType @ [CHR 0x0A] @
           ''</Internal Memo>''
       \<and> fst (processProjectUpdates ids id_throws wire updateType d3
               \<lparr>info_throws = Some err, error_throws = None\<rparr> t0) = Inr []
       \<and> fst (processProjectUpdates ids (Some err) wire updateType d3
               \<lparr>info_throws = None, error_throws = None\<rparr> t0) = Inr []
       \<and> fst (processProjectUpdates ids id_throws wire updateType d3
               \<lparr>info_throws = Some err, error_throws = Some thrown_by_logger\<rparr> t0) = Inl thrown_by_logger
       \<and> fst (processProjectUpdates ids (Some err) wire updateType d3
               \<lparr>info_throws = None, error_throws = Some thrown_by_logger\<rparr> t0) = Inl thrown_by_logger"
proof -
  have differ: "ids (ids_issued t0) \<noteq> ids (Suc (ids_issued t0))"
    using assms by (auto dest: injD)
  have memo: "string_includes (preparedMessage wire updateType) ''Internal Memo''"
    by (simp add: preparedMessage_def)
  show ?thesis
    using differ memo
    by (simp add: processProjectUpdates_def update_catch_def generateConversationId_def
          logger_info_def logger_error_def Let_def is_internal_memo_def)
       (simp add: preparedMessage_def newline_def)
qed

theorem processProjectUpdates_twice_witness:
  "fst (processProjectUpdates sample_ids None sample_wire CODE_REVIEW (JNum 1) working_logger sample_turn) =
     Inr [\<lparr>role = Assistant,
           content = Text (''**<Internal Memo>**'' @ [CHR 0x0A] @ ''Project Updates: code_review'' @
                           [CHR 0x0A] @ ''</Internal Memo>''),
           conversationId = Some ''id-''\<rparr>]
   \<and> fst (processProjectUpdates sample_ids None sample_wire CODE_REVIEW (JNum 2) working_logger
         (snd (processProjectUpdates sample_ids None sample_wire CODE_REVIEW (JNum 1) working_logger
                 sample_turn))) =
     Inr [\<lparr>role = Assistant,
           content = Text (''**<Internal Memo>**'' @ [CHR 0x0A] @ ''Project Updates: code_review'' @
                           [CHR 0x0A] @ ''</Internal Memo>''),
           conversationId = Some ''id-i''\<rparr>]
   \<and> fst (processProjectUpdates sample_ids None sample_wire CODE_REVIEW (JNum 3)
         \<lparr>info_throws = Some (ErrorObject PlainError ''log sink closed''), error_throws = None\<rparr>
         sample_turn) = Inr []
   \<and> fst (processProjectUpdates sample_ids None sample_wire CODE_REVIEW (JNum 3)
         \<lparr>info_throws = Some (ErrorObject PlainError ''log sink closed''),
          error_throws = Some (ErrorObject PlainError ''disk full'')\<rparr>
         sample_turn) = Inl (ErrorObject PlainError ''disk full'')"
proof -
  have w: "working_logger\<lparr>info_throws := None\<rparr> = working_logger"
    by (simp add: working_logger_def)
  show ?thesis
    using processProjectUpdates_twice
            [where ids = sample_ids and wire = sample_wire and updateType = CODE_REVIEW
               and ?d1.0 = "JNum 1" and ?d2.0 = "JNum 2" and ?d3.0 = "JNum 3" and ?t0.0 = sample_turn
               and logger = working_logger and id_throws = None
               and err = "ErrorObject PlainError ''log sink closed''"
               and thrown_by_logger = "ErrorObject PlainError ''disk full''"]
          inj_sample_ids
    by (simp add: w sample_wire_def sample_turn_def sample_ids_def)
qed

section \<open>Properties of the bootstrap controller\<close>

lemma startCodeGeneration_rejected:
  assumes "request_json sv = Inr body"
      and "\<not> falsy (query body)"
      and "enforceAppCreationRateLimit sv = Some err"
  shows "startCodeGeneration pf sv req =
           \<lparr>response =
              ErrorResponse (case err of ErrorObject c message \<Rightarrow> message
                                       | NonError v \<Rightarrow> JSON_stringify pf v) 429,
            handler_effects =
              [LoggerInfo ''Starting code generation process'', RequestJson,
               NewTransformStream, GetWriter, EnforceAppCreationRateLimit (user_id req)] @
              (if instanceof_Error err then []
               else [LoggerError ''Unknown error in enforceAppCreationRateLimit'']),
            background_effects = []\<rparr>"
  using assms
  by (cases err) (simp_all add: startCodeGeneration_def finished_def Let_def)

text \<open>
  C1. For every request that reaches the quota check and is rejected by it,
  \<open>startCodeGeneration\<close> answers with status 429 and the message of the error the quota
  engine threw (the JSON serialization of the thrown value when it is no error object).
  The id generator is not called and no agent stub is requested. No stream is opened for
  the request: the response is not the stream response, nothing is written to the
  writer, the writer is not closed and no work is left running; the stream object that
  lines 49-59 construct before the check is dropped unused.
\<close>

theorem quota_rejection_allocates_no_session:
  assumes "request_json sv = Inr body"
      and "\<not> falsy (query body)"
      and "enforceAppCreationRateLimit sv = Some err"
  shows "response (startCodeGeneration pf sv req) =
           ErrorResponse (case err of ErrorObject c message \<Rightarrow> message
                                    | NonError v \<Rightarrow> JSON_stringify pf v) 429
       \<and> GenerateId \<notin> set (handler_effects (startCodeGeneration pf sv req))
       \<and> (\<forall>agentId. GetAgentStub agentId \<notin> set (handler_effects (startCodeGeneration pf sv req)))
       \<and> (\<forall>chunk. WriterWrite chunk \<notin> set (handler_effects (startCodeGeneration pf sv req)))
       \<and> background_effects (startCodeGeneration pf sv req) = []
       \<and> take 5 (handler_effects (startCodeGeneration pf sv req)) =
           [LoggerInfo ''Starting code generation process'', RequestJson,
            NewTransformStream, GetWriter, EnforceAppCreationRateLimit (user_id req)]
       \<and> WriterClose \<notin> set (handler_effects (startCodeGeneration pf sv req))
       \<and> (\<forall>code headers. response (startCodeGeneration pf sv req) \<noteq> StreamResponse code headers)
       \<and> (\<forall>init mode. AgentInitialize init mode \<notin> set (handler_effects (startCodeGeneration pf sv req)))"
  unfolding startCodeGeneration_rejected [OF assms]
  by simp

theorem quota_rejection_allocates_no_session_witness:
  "response (startCodeGeneration sample_platform
      (sample_services (Some (ErrorObject RateLimitExceededError ''Rate limit exceeded'')) Resolves)
      sample_request) = ErrorResponse ''Rate limit exceeded'' 429
   \<and> GenerateId \<notin> set (handler_effects (startCodeGeneration sample_platform
      (sample_services (Some (ErrorObject RateLimitExceededError ''Rate limit exceeded'')) Resolves)
      sample_request))
   \<and> background_effects (startCodeGeneration sample_platform
      (sample_services (Some (ErrorObject RateLimitExceededError ''Rate limit exceeded'')) Resolves)
      sample_request) = []
   \<and> response (startCodeGeneration sample_platform
      (sample_services (Some (NonError (JStr ''slow down''))) Resolves)
      sample_request) = ErrorResponse ([CHR 0x22] @ ''slow down'' @ [CHR 0x22]) 429"
proof -
  have h1: "request_json (sample_services (Some err) Resolves) = Inr sample_body" for err
    by (simp add: sample_services_def)
  have h2: "\<not> falsy (query sample_body)"
    by (simp add: sample_body_def falsy_def)
  have h3: "enforceAppCreationRateLimit (sample_services (Some err) Resolves) = Some err" for err
    by (simp add: sample_services_def)
  have s: "JSON_stringify sample_platform (JStr ''slow down'') = [CHR 0x22] @ ''slow down'' @ [CHR 0x22]"
    by (simp add: sample_platform_def)
  show ?thesis
    using quota_rejection_allocates_no_session
            [OF h1 h2 h3 [of "ErrorObject RateLimitExceededError ''Rate limit exceeded''"],
               where pf = sample_platform and req = sample_request]
          quota_rejection_allocates_no_session
            [OF h1 h2 h3 [of "NonError (JStr ''slow down'')"],
               where pf = sample_platform and req = sample_request]
    by (simp add: s)
qed

lemma startCodeGeneration_launched:
  assumes "request_json sv = Inr body"
      and "\<not> falsy (query body)"
      and "enforceAppCreationRateLimit sv = None"
      and "getUserModelConfigs sv = Inr configs"
      and "getAgentStub sv = Inr agent"
      and "getTemplateForQuery sv = Inr template"
  shows "response (startCodeGeneration pf sv req) = StreamResponse 200 stream_headers"
    and "background_effects (startCodeGeneration pf sv req) =
           map (\<lambda>chunk. WriterWrite (JObj [(''chunk'', JStr chunk)])) (blueprint_chunks agent) @
           on_settled (generateId sv) (settles agent)"
  using assms
  by (simp_all add: startCodeGeneration_def after_quota_def Let_def)

lemma resolved_initialization_terminates_once:
  assumes "request_json sv = Inr body"
      and "\<not> falsy (query body)"
      and "enforceAppCreationRateLimit sv = None"
      and "getUserModelConfigs sv = Inr configs"
      and "getAgentStub sv = Inr agent"
      and "getTemplateForQuery sv = Inr template"
      and "settles agent = Resolves"
  shows "\<exists>before after.
           background_effects (startCodeGeneration pf sv req) =
             before @ [WriterWrite (JStr ''terminate''), WriterClose] @ after
         \<and> WriterWrite (JStr ''terminate'') \<notin> set before
         \<and> (\<forall>chunk. WriterWrite chunk \<notin> set after)"
proof -
  let ?before = "map (\<lambda>chunk. WriterWrite (JObj [(''chunk'', JStr chunk)])) (blueprint_chunks agent)"
  let ?after = "[LoggerInfo (''Agent '' @ generateId sv @ '' terminated successfully'')]"
  have "background_effects (startCodeGeneration pf sv req) =
          ?before @ [WriterWrite (JStr ''terminate''), WriterClose] @ ?after"
    using startCodeGeneration_launched(2) [OF assms(1-6)] assms(7) by simp
  moreover have "WriterWrite (JStr ''terminate'') \<notin> set ?before"
    by auto
  moreover have "\<forall>chunk. WriterWrite chunk \<notin> set ?after"
    by simp
  ultimately show ?thesis by blast
qed

text \<open>
  C2 holds when initialization resolves and fails when it rejects: \<open>then\<close> is given no
  rejection handler. For an agent that reports one blueprint fragment and then rejects,
  the handler has answered 200 with the stream, and afterwards the fragment is the only
  write: the sentinel is never written and the writer is never closed.
\<close>

theorem rejected_initialization_leaves_stream_open:
  "response (startCodeGeneration sample_platform
      (sample_services None (Rejects (ErrorObject PlainError ''init failed''))) sample_request) =
     StreamResponse 200 stream_headers
   \<and> background_effects (startCodeGeneration sample_platform
      (sample_services None (Rejects (ErrorObject PlainError ''init failed''))) sample_request) =
     [WriterWrite (JObj [(''chunk'', JStr ''bp'')])]
   \<and> WriterWrite (JStr ''terminate'') \<notin> set (background_effects (startCodeGeneration sample_platform
      (sample_services None (Rejects (ErrorObject PlainError ''init failed''))) sample_request))
   \<and> WriterClose \<notin> set (background_effects (startCodeGeneration sample_platform
      (sample_services None (Rejects (ErrorObject PlainError ''init failed''))) sample_request))
   \<and> background_effects (startCodeGeneration sample_platform
      (sample_services None Resolves) sample_request) =
     [WriterWrite (JObj [(''chunk'', JStr ''bp'')]), WriterWrite (JStr ''terminate''), WriterClose,
      LoggerInfo ''Agent agent-1 terminated successfully'']"
proof -
  have a: "request_json (sample_services None s) = Inr sample_body"
          "\<not> falsy (query sample_body)"
          "enforceAppCreationRateLimit (sample_services None s) = None"
          "getUserModelConfigs (sample_services None s) = Inr []"
          "getAgentStub (sample_services None s) = Inr \<lparr>blueprint_chunks = [''bp''], settles = s\<rparr>"
          "getTemplateForQuery (sample_services None s) =
             Inr \<lparr>sandboxSessionId = ''sb'',
                  templateDetails = \<lparr>template_name = ''vite-react'', template_files = JArr []\<rparr>,
                  selection = JNull\<rparr>" for s
    by (simp_all add: sample_services_def sample_body_def falsy_def)
  note l = startCodeGeneration_launched [OF a, where pf = sample_platform and req = sample_request]
  have g: "generateId (sample_services None s) = ''agent-1''" for s
    by (simp add: sample_services_def)
  show ?thesis
    by (simp add: l g)
qed

end
